theory Spec2Isabelle
  imports Complex_Main "HOL-Library.AList"
begin

section \<open>Values, exceptions and the configuration\<close>

text \<open>
  The scraper is Python. Its exceptions are values of \<open>py_exn\<close>; a call that may raise
  returns \<open>py_exn + 'a\<close> with \<open>Inl\<close> the exception.
\<close>

datatype py_exn =
    SelectorSyntaxError
  | RequestException
  | ClientError
  | TimeoutException
  | WebDriverException
  | TypeError
  | ValueError
  | OverflowError
  | RetryError
  | OtherException

text \<open>
  What a field of a record can hold: a string, a list of strings (several matches, or a
  multi-valued attribute such as \<open>class\<close>), or Python's \<open>None\<close> (what Selenium's
  \<open>get_attribute\<close> returns for an attribute that is not there).
\<close>

datatype pyval = PStr string | PList "string list" | PNone

text \<open>
  The configuration file is JSON, loaded by \<open>json.load\<close> into Python values. A float is
  the real number it stands for; the literals \<open>NaN\<close> and \<open>Infinity\<close>, which are not JSON
  but which \<open>json.load\<close> reads, are not values of this type.
\<close>

datatype json =
    JNull
  | JBool bool
  | JInt int
  | JFloat real
  | JStr string
  | JArr "json list"
  | JObj "(string \<times> json) list"

text \<open>Python's truth value of a loaded JSON value, as \<open>if x:\<close> and \<open>x or y\<close> test it.\<close>

fun truthy :: "json \<Rightarrow> bool" where
  "truthy JNull = False"
| "truthy (JBool b) = b"
| "truthy (JInt i) = (i \<noteq> 0)"
| "truthy (JFloat r) = (r \<noteq> 0)"
| "truthy (JStr s) = (s \<noteq> [])"
| "truthy (JArr xs) = (xs \<noteq> [])"
| "truthy (JObj kvs) = (kvs \<noteq> [])"

definition py_or :: "json \<Rightarrow> json \<Rightarrow> json" where
  "py_or x y = (if truthy x then x else y)"

text \<open>
  \<open>ConfigLoader.get\<close>: \<open>self.config.get(key, default)\<close>. The loaded configuration is
  a dict (\<open>load_config\<close> looks the required keys up in it).
\<close>

definition get :: "json \<Rightarrow> string \<Rightarrow> json \<Rightarrow> json" where
  "get config key dflt =
     (case config of
        JObj kvs \<Rightarrow> (case map_of kvs key of Some v \<Rightarrow> v | None \<Rightarrow> dflt)
      | _ \<Rightarrow> dflt)"

text \<open>
  \<open>ConfigLoader.get_nested\<close>: walk down the keys while the value is a dict that has the
  key, and return \<open>None\<close> (here \<open>JNull\<close>) as soon as it is not.
\<close>

fun get_nested_from :: "json \<Rightarrow> string list \<Rightarrow> json" where
  "get_nested_from v [] = v"
| "get_nested_from v (key # keys) =
     (case v of
        JObj kvs \<Rightarrow>
          (case map_of kvs key of
             Some v' \<Rightarrow> get_nested_from v' keys
           | None \<Rightarrow> JNull)
      | _ \<Rightarrow> JNull)"

definition get_nested :: "json \<Rightarrow> string list \<Rightarrow> json" where
  "get_nested config keys = get_nested_from config keys"

section \<open>The selector schema\<close>

text \<open>
  A field selector of the configuration is a string (\<open>Simple\<close>), or a dict with the
  optional keys \<open>attr\<close> and \<open>selector\<close> (\<open>Attributed\<close>, \<open>None\<close> for a key that is
  not there), or any other JSON value (\<open>Unsupported\<close>), which the \<open>if\<close>/\<open>elif\<close> chain
  of \<open>extract_data\<close> passes over. The \<open>selectors\<close> dict has the optional keys \<open>item\<close>
  and \<open>fields\<close>; the fields are kept in the order of the dict.
\<close>

datatype field_selector =
    Simple string
  | Attributed "string option" "string option"
  | Unsupported

record selectors =
  sel_item :: "string option"
  sel_fields :: "(string \<times> field_selector) list option"

type_synonym item_data = "(string \<times> pyval) list"

text \<open>\<open>selectors.get("item", "")\<close> and \<open>selectors.get("fields", {})\<close>.\<close>

definition item_selector :: "selectors \<Rightarrow> string" where
  "item_selector s = (case sel_item s of Some i \<Rightarrow> i | None \<Rightarrow> [])"

definition field_selectors :: "selectors \<Rightarrow> (string \<times> field_selector) list" where
  "field_selectors s = (case sel_fields s of Some fs \<Rightarrow> fs | None \<Rightarrow> [])"

section \<open>The libraries and the network\<close>

text \<open>
  BeautifulSoup, urllib, the HTTP session, the random numbers, the sleeping and the
  arithmetic of Python's numbers are not code of the scraper: they are parameters. \<open>'e\<close>
  is the type of a parsed element (the document is its root element).
  \<^item> \<open>select e s\<close> is \<open>e.select(s)\<close>: the descendants of \<open>e\<close> that match \<open>s\<close>, in document
    order, or the exception the selector engine raises on a selector it cannot parse;
  \<^item> \<open>get_text e\<close> is \<open>e.get_text(strip=True)\<close>;
  \<^item> \<open>attrs e a\<close> is the entry of \<open>e.attrs\<close> at \<open>a\<close>;
  \<^item> \<open>urljoin base url\<close> is \<open>urllib.parse.urljoin(base, url)\<close>: the joined URL, or the
    exception it raises (\<open>ValueError\<close> on a reference it cannot parse);
  \<^item> \<open>http_get n url\<close> is what the \<open>n\<close>-th request issued in a run gives when it is for
    \<open>url\<close>: the parsed page, or the exception raised by \<open>get\<close> or \<open>raise_for_status\<close>;
  \<^item> \<open>uniform n\<close> is the \<open>n\<close>-th value drawn by \<open>random.uniform(0, 1)\<close>;
  \<^item> \<open>add_jitter d u\<close> is Python's \<open>d + u\<close> for the configured delay \<open>d\<close> and the float
    \<open>u\<close>: the sum as Python rounds it, or the exception (\<open>TypeError\<close> on a delay that is
    not a number, \<open>OverflowError\<close> on an integer too large for a float);
  \<^item> \<open>time_sleep d\<close> is \<open>time.sleep(d)\<close>: \<open>None\<close> when it sleeps and returns, or the
    exception it raises (\<open>TypeError\<close> on a value that is not a number, \<open>ValueError\<close> on a
    negative one, \<open>OverflowError\<close> on one too large);
  \<^item> \<open>asyncio_sleep d\<close> is \<open>await asyncio.sleep(d)\<close>, in the same way.
\<close>

record 'e lib =
  select :: "'e \<Rightarrow> string \<Rightarrow> py_exn + 'e list"
  get_text :: "'e \<Rightarrow> string"
  attrs :: "'e \<Rightarrow> string \<Rightarrow> pyval option"
  urljoin :: "string \<Rightarrow> string \<Rightarrow> py_exn + string"
  http_get :: "nat \<Rightarrow> string \<Rightarrow> py_exn + 'e"
  uniform :: "nat \<Rightarrow> real"
  add_jitter :: "json \<Rightarrow> real \<Rightarrow> py_exn + json"
  time_sleep :: "json \<Rightarrow> py_exn option"
  asyncio_sleep :: "json \<Rightarrow> py_exn option"

section \<open>StaticScraper.extract_data\<close>

text \<open>
  The value one field selector gives on one item element: \<open>Inr (Some v)\<close> when
  \<open>item_data[field_name] = v\<close> is executed, \<open>Inr None\<close> when no branch is taken, \<open>Inl\<close>
  when \<open>element.select\<close> raises (nothing catches it in this method).
\<close>

fun static_field :: "'e lib \<Rightarrow> 'e \<Rightarrow> field_selector \<Rightarrow> py_exn + pyval option" where
  "static_field L element (Simple selector) =
     (case select L element selector of
        Inl exn \<Rightarrow> Inl exn
      | Inr elements \<Rightarrow>
          if elements \<noteq> [] then
            if length elements > 1 then Inr (Some (PList (map (get_text L) elements)))
            else Inr (Some (PStr (get_text L (hd elements))))
          else Inr (Some (PStr [])))"
| "static_field L element (Attributed attr_opt selector_opt) =
     (let attr = (case attr_opt of Some a \<Rightarrow> a | None \<Rightarrow> ''text'');
          css_selector = (case selector_opt of Some c \<Rightarrow> c | None \<Rightarrow> [])
      in case select L element css_selector of
           Inl exn \<Rightarrow> Inl exn
         | Inr elements \<Rightarrow>
             if elements \<noteq> [] then
               if attr = ''text'' then Inr (Some (PStr (get_text L (hd elements))))
               else Inr (Some (case attrs L (hd elements) attr of
                                 Some v \<Rightarrow> v
                               | None \<Rightarrow> PStr []))
             else Inr (Some (PStr [])))"
| "static_field L element Unsupported = Inr None"

text \<open>The loop over \<open>field_selectors.items()\<close>, filling \<open>item_data\<close>.\<close>

fun static_fields ::
  "'e lib \<Rightarrow> 'e \<Rightarrow> (string \<times> field_selector) list \<Rightarrow> item_data \<Rightarrow> py_exn + item_data" where
  "static_fields L element [] item_data = Inr item_data"
| "static_fields L element ((field_name, selector) # rest) item_data =
     (case static_field L element selector of
        Inl exn \<Rightarrow> Inl exn
      | Inr None \<Rightarrow> static_fields L element rest item_data
      | Inr (Some v) \<Rightarrow> static_fields L element rest (AList.update field_name v item_data))"

text \<open>The loop over \<open>item_elements\<close>, appending to \<open>items\<close>.\<close>

fun static_items ::
  "'e lib \<Rightarrow> 'e list \<Rightarrow> (string \<times> field_selector) list \<Rightarrow> item_data list
     \<Rightarrow> py_exn + item_data list" where
  "static_items L [] fs items = Inr items"
| "static_items L (element # rest) fs items =
     (case static_fields L element fs [] of
        Inl exn \<Rightarrow> Inl exn
      | Inr item_data \<Rightarrow> static_items L rest fs (items @ [item_data]))"

definition static_extract_data :: "'e lib \<Rightarrow> 'e \<Rightarrow> selectors \<Rightarrow> py_exn + item_data list" where
  "static_extract_data L soup sels =
     (case select L soup (item_selector sels) of
        Inl exn \<Rightarrow> Inl exn
      | Inr item_elements \<Rightarrow> static_items L item_elements (field_selectors sels) [])"

section \<open>AsyncScraper.extract_data\<close>

fun async_field :: "'e lib \<Rightarrow> 'e \<Rightarrow> field_selector \<Rightarrow> py_exn + pyval option" where
  "async_field L element (Simple selector) =
     (case select L element selector of
        Inl exn \<Rightarrow> Inl exn
      | Inr elements \<Rightarrow>
          if elements \<noteq> [] then
            if length elements > 1 then Inr (Some (PList (map (get_text L) elements)))
            else Inr (Some (PStr (get_text L (hd elements))))
          else Inr (Some (PStr [])))"
| "async_field L element (Attributed attr_opt selector_opt) =
     (let attr = (case attr_opt of Some a \<Rightarrow> a | None \<Rightarrow> ''text'');
          css_selector = (case selector_opt of Some c \<Rightarrow> c | None \<Rightarrow> [])
      in case select L element css_selector of
           Inl exn \<Rightarrow> Inl exn
         | Inr elements \<Rightarrow>
             if elements \<noteq> [] then
               if attr = ''text'' then Inr (Some (PStr (get_text L (hd elements))))
               else Inr (Some (case attrs L (hd elements) attr of
                                 Some v \<Rightarrow> v
                               | None \<Rightarrow> PStr []))
             else Inr (Some (PStr [])))"
| "async_field L element Unsupported = Inr None"

fun async_fields ::
  "'e lib \<Rightarrow> 'e \<Rightarrow> (string \<times> field_selector) list \<Rightarrow> item_data \<Rightarrow> py_exn + item_data" where
  "async_fields L element [] item_data = Inr item_data"
| "async_fields L element ((field_name, selector) # rest) item_data =
     (case async_field L element selector of
        Inl exn \<Rightarrow> Inl exn
      | Inr None \<Rightarrow> async_fields L element rest item_data
      | Inr (Some v) \<Rightarrow> async_fields L element rest (AList.update field_name v item_data))"

fun async_items ::
  "'e lib \<Rightarrow> 'e list \<Rightarrow> (string \<times> field_selector) list \<Rightarrow> item_data list
     \<Rightarrow> py_exn + item_data list" where
  "async_items L [] fs items = Inr items"
| "async_items L (element # rest) fs items =
     (case async_fields L element fs [] of
        Inl exn \<Rightarrow> Inl exn
      | Inr item_data \<Rightarrow> async_items L rest fs (items @ [item_data]))"

definition async_extract_data :: "'e lib \<Rightarrow> 'e \<Rightarrow> selectors \<Rightarrow> py_exn + item_data list" where
  "async_extract_data L soup sels =
     (case select L soup (item_selector sels) of
        Inl exn \<Rightarrow> Inl exn
      | Inr item_elements \<Rightarrow> async_items L item_elements (field_selectors sels) [])"

section \<open>The scrapers and their constructors\<close>

text \<open>
  The fields the three constructors have in common, read from the \<open>ConfigLoader\<close>; each
  class adds its own. \<open>x or y\<close> is \<open>py_or\<close>. The HTTP session, the semaphore and the browser
  driver are not fields here: the network is \<open>http_get\<close>, the browser is a \<open>webdriver\<close>
  (below).
\<close>

record scraper =
  config :: json
  base_url :: json
  user_agents :: json
  delay_seconds :: json
  jitter :: json

record static_scraper = scraper +
  static_proxies :: json

record async_scraper = scraper +
  async_concurrency :: json
  async_proxies :: json

record js_scraper = scraper +
  selenium_config :: json

definition StaticScraper_init :: "json \<Rightarrow> static_scraper" where
  "StaticScraper_init cfg =
     \<lparr> config = cfg,
       base_url = get cfg ''base_url'' JNull,
       user_agents = get cfg ''user_agents'' (JArr []),
       delay_seconds = py_or (get_nested cfg [''rate_limit'', ''delay_seconds'']) (JFloat 1.0),
       jitter = py_or (get_nested cfg [''rate_limit'', ''jitter'']) (JBool False),
       static_proxies = get cfg ''proxies'' (JObj []) \<rparr>"

definition AsyncScraper_init :: "json \<Rightarrow> async_scraper" where
  "AsyncScraper_init cfg =
     \<lparr> config = cfg,
       base_url = get cfg ''base_url'' JNull,
       user_agents = get cfg ''user_agents'' (JArr []),
       delay_seconds = py_or (get_nested cfg [''rate_limit'', ''delay_seconds'']) (JFloat 1.0),
       jitter = py_or (get_nested cfg [''rate_limit'', ''jitter'']) (JBool False),
       async_concurrency = get cfg ''concurrency'' (JObj []),
       async_proxies = get cfg ''proxies'' (JObj []) \<rparr>"

definition JSScraper_init :: "json \<Rightarrow> js_scraper" where
  "JSScraper_init cfg =
     \<lparr> config = cfg,
       base_url = get cfg ''base_url'' JNull,
       user_agents = get cfg ''user_agents'' (JArr []),
       delay_seconds = py_or (get_nested cfg [''rate_limit'', ''delay_seconds'']) (JFloat 1.0),
       jitter = py_or (get_nested cfg [''rate_limit'', ''jitter'']) (JBool False),
       selenium_config = get cfg ''selenium'' (JObj []) \<rparr>"

section \<open>Effects: the trace of a run\<close>

text \<open>
  What a run does to the outside is a list of events, in the order they happen. \<open>Draw u\<close>
  is a call of \<open>random.uniform(0, 1)\<close> that gave \<open>u\<close>, \<open>Sleep d\<close> a call of
  \<open>time.sleep(d)\<close> or \<open>asyncio.sleep(d)\<close> that returned, \<open>Request u\<close> the \<open>get\<close> of a URL,
  \<open>Backoff w\<close> the wait of the retry decorator between two attempts, \<open>Log lvl x\<close> a call
  of the logger about the URL, field or selector \<open>x\<close>. The state also counts the requests
  issued and the random values drawn, which index \<open>http_get\<close> and \<open>uniform\<close>.
\<close>

datatype level = INFO | WARNING | ERROR

datatype event =
    Log level string
  | SetUserAgent
  | Draw real
  | Sleep json
  | Request string
  | Backoff real

record state =
  trace :: "event list"
  requests :: nat
  draws :: nat

definition emit :: "event \<Rightarrow> state \<Rightarrow> state" where
  "emit e st = st\<lparr>trace := trace st @ [e]\<rparr>"

text \<open>
  The number a JSON value is (\<open>bool\<close> is a subclass of \<open>int\<close>); \<open>None\<close> for a value
  that is not a number.
\<close>

fun num_of :: "json \<Rightarrow> real option" where
  "num_of (JInt i) = Some (real_of_int i)"
| "num_of (JFloat r) = Some r"
| "num_of (JBool b) = Some (if b then 1 else 0)"
| "num_of _ = None"

section \<open>The retry decorator\<close>

text \<open>
  \<open>fetch_page\<close> is decorated with
  \<open>@retry(stop=stop_after_attempt(3), wait=wait_exponential(multiplier=1, min=4, max=10))\<close>
  of the tenacity library. The library calls the function; when it raises, and the number of
  the attempt (from 1) has reached the stop, it raises \<open>RetryError\<close>; otherwise it sleeps
  for the wait of that attempt and calls again. The wait is the multiplier times a power
  of two, kept between min and max; the exponent is the number of the attempt less one
  (with the constants of \<open>fetch_page\<close> the two waits that can happen are 4 seconds also
  when the exponent is the number of the attempt itself, as in older versions of the library).
\<close>

definition wait_exponential :: "real \<Rightarrow> real \<Rightarrow> real \<Rightarrow> nat \<Rightarrow> real" where
  "wait_exponential multiplier mn mx e = max (max 0 mn) (min (multiplier * 2 ^ e) mx)"

function retrying ::
  "nat \<Rightarrow> (nat \<Rightarrow> real) \<Rightarrow> (state \<Rightarrow> (py_exn + 'a) \<times> state) \<Rightarrow> nat \<Rightarrow> state
     \<Rightarrow> (py_exn + 'a) \<times> state" where
  "retrying stop_after wait body attempt_number st =
     (case body st of
        (Inr result, st') \<Rightarrow> (Inr result, st')
      | (Inl exn, st') \<Rightarrow>
          if attempt_number \<ge> stop_after then (Inl RetryError, st')
          else retrying stop_after wait body (Suc attempt_number)
                 (emit (Backoff (wait attempt_number)) st'))"
  by pat_completeness auto
termination
  by (relation "measure (\<lambda>(stop_after, wait, body, attempt_number, st).
                  stop_after - attempt_number)") auto

declare retrying.simps [simp del]

section \<open>StaticScraper.fetch_page and AsyncScraper.fetch_page\<close>

text \<open>
  One call of the body of \<open>StaticScraper.fetch_page\<close>: the user agent, the delay, the
  request. With jitter, \<open>random.uniform(0, 1)\<close> is called and added to the delay; the sum
  and \<open>time.sleep\<close> may raise, and then no request is made. Only a
  \<open>requests.RequestException\<close> is logged before it is raised again.
\<close>

definition static_fetch_attempt ::
  "'e lib \<Rightarrow> 'a scraper_scheme \<Rightarrow> string \<Rightarrow> state \<Rightarrow> (py_exn + 'e) \<times> state" where
  "static_fetch_attempt L s url st0 =
     (let st1 = (if truthy (user_agents s) then emit SetUserAgent st0 else st0);
          st2 = (if truthy (jitter s)
                 then emit (Draw (uniform L (draws st1))) (st1\<lparr>draws := Suc (draws st1)\<rparr>)
                 else st1);
          delay = (if truthy (jitter s)
                   then add_jitter L (delay_seconds s) (uniform L (draws st1))
                   else Inr (delay_seconds s))
      in case delay of
           Inl exn \<Rightarrow> (Inl exn, st2)
         | Inr d \<Rightarrow>
             (case time_sleep L d of
                Some exn \<Rightarrow> (Inl exn, st2)
              | None \<Rightarrow>
                  (let st3 = emit (Sleep d) st2;
                       st4 = (emit (Request url) st3)\<lparr>requests := Suc (requests st3)\<rparr>
                   in case http_get L (requests st3) url of
                        Inr soup \<Rightarrow> (Inr soup, st4)
                      | Inl exn \<Rightarrow>
                          if exn = RequestException then (Inl exn, emit (Log ERROR url) st4)
                          else (Inl exn, st4))))"

definition static_fetch_page ::
  "'e lib \<Rightarrow> 'a scraper_scheme \<Rightarrow> string \<Rightarrow> state \<Rightarrow> (py_exn + 'e) \<times> state" where
  "static_fetch_page L s url st =
     retrying 3 (\<lambda>attempt_number. wait_exponential 1 4 10 (attempt_number - 1))
       (static_fetch_attempt L s url) 1 st"

text \<open>
  One call of the body of \<open>AsyncScraper.fetch_page\<close>, as the events of its own task:
  the semaphore and the other tasks that run meanwhile are not in this trace. The sleep is
  \<open>asyncio.sleep\<close>; the exception logged is \<open>aiohttp.ClientError\<close>.
\<close>

definition async_fetch_attempt ::
  "'e lib \<Rightarrow> 'a scraper_scheme \<Rightarrow> string \<Rightarrow> state \<Rightarrow> (py_exn + 'e) \<times> state" where
  "async_fetch_attempt L s url st0 =
     (let st1 = (if truthy (user_agents s) then emit SetUserAgent st0 else st0);
          st2 = (if truthy (jitter s)
                 then emit (Draw (uniform L (draws st1))) (st1\<lparr>draws := Suc (draws st1)\<rparr>)
                 else st1);
          delay = (if truthy (jitter s)
                   then add_jitter L (delay_seconds s) (uniform L (draws st1))
                   else Inr (delay_seconds s))
      in case delay of
           Inl exn \<Rightarrow> (Inl exn, st2)
         | Inr d \<Rightarrow>
             (case asyncio_sleep L d of
                Some exn \<Rightarrow> (Inl exn, st2)
              | None \<Rightarrow>
                  (let st3 = emit (Sleep d) st2;
                       st4 = (emit (Request url) st3)\<lparr>requests := Suc (requests st3)\<rparr>
                   in case http_get L (requests st3) url of
                        Inr soup \<Rightarrow> (Inr soup, st4)
                      | Inl exn \<Rightarrow>
                          if exn = ClientError then (Inl exn, emit (Log ERROR url) st4)
                          else (Inl exn, st4))))"

definition async_fetch_page ::
  "'e lib \<Rightarrow> 'a scraper_scheme \<Rightarrow> string \<Rightarrow> state \<Rightarrow> (py_exn + 'e) \<times> state" where
  "async_fetch_page L s url st =
     retrying 3 (\<lambda>attempt_number. wait_exponential 1 4 10 (attempt_number - 1))
       (async_fetch_attempt L s url) 1 st"





text \<open>
  A scraper whose delay can be slept: the sum with any value drawn does not raise, and the
  sleep does not raise. The second is the same for \<open>asyncio.sleep\<close>.
\<close>

definition sleepable :: "'e lib \<Rightarrow> 'a scraper_scheme \<Rightarrow> bool" where
  "sleepable L s =
     (if truthy (jitter s)
      then (\<forall>n. case add_jitter L (delay_seconds s) (uniform L n) of
                  Inl exn \<Rightarrow> False
                | Inr d \<Rightarrow> time_sleep L d = None)
      else time_sleep L (delay_seconds s) = None)"


text \<open>The events a call has added to the trace.\<close>

definition new_events :: "state \<Rightarrow> state \<Rightarrow> event list" where
  "new_events st st' = drop (length (trace st)) (trace st')"

text \<open>The requests, the sleeps, the waits, the pages and the warnings of a trace.\<close>

fun requested :: "event list \<Rightarrow> string list" where
  "requested [] = []"
| "requested (Request u # es) = u # requested es"
| "requested (e # es) = requested es"

fun slept :: "event list \<Rightarrow> json list" where
  "slept [] = []"
| "slept (Sleep d # es) = d # slept es"
| "slept (e # es) = slept es"

fun backoffs :: "event list \<Rightarrow> real list" where
  "backoffs [] = []"
| "backoffs (Backoff w # es) = w # backoffs es"
| "backoffs (e # es) = backoffs es"


fun warnings :: "event list \<Rightarrow> string list" where
  "warnings [] = []"
| "warnings (Log WARNING x # es) = x # warnings es"
| "warnings (e # es) = warnings es"

section \<open>Pagination and StaticScraper.scrape\<close>

text \<open>
  What \<open>scrape\<close> and \<open>get_next_page_url\<close> read from the configuration, at the types the
  data model gives them: \<open>self.base_url\<close>, \<open>config.get("start_paths", ["/"])\<close>,
  \<open>config.get("selectors", {})\<close> and, of \<open>config.get("pagination", {})\<close>, the entries
  \<open>next_selector\<close> and \<open>next_url_template\<close>. \<open>None\<close> is a key that is not there.
\<close>

record site =
  site_base_url :: string
  start_paths :: "string list option"
  site_selectors :: "selectors option"
  next_selector :: "string option"
  next_url_template :: "string option"

text \<open>The truth value of an optional string: \<open>None\<close> and \<open>""\<close> are false.\<close>

definition str_truthy :: "string option \<Rightarrow> bool" where
  "str_truthy x = (case x of None \<Rightarrow> False | Some s \<Rightarrow> s \<noteq> [])"

text \<open>\<open>soup.select_one(s)\<close>: the first element of \<open>soup.select(s)\<close>, or \<open>None\<close>.\<close>

definition select_one :: "'e lib \<Rightarrow> 'e \<Rightarrow> string \<Rightarrow> py_exn + 'e option" where
  "select_one L e s =
     (case select L e s of
        Inl exn \<Rightarrow> Inl exn
      | Inr [] \<Rightarrow> Inr None
      | Inr (x # _) \<Rightarrow> Inr (Some x))"

text \<open>
  \<open>StaticScraper.get_next_page_url\<close>. An element is true in Python whatever it holds;
  \<open>next_element.get("href")\<close> is false when the attribute is not there or is empty;
  \<open>urljoin\<close> raises \<open>TypeError\<close> on a value that is not a string, and may raise on a
  string.
\<close>

definition get_next_page_url ::
  "'e lib \<Rightarrow> site \<Rightarrow> 'e \<Rightarrow> string \<Rightarrow> state \<Rightarrow> (py_exn + string option) \<times> state" where
  "get_next_page_url L cfg soup current_url st =
     (let from_selector =
            (case next_selector cfg of
               None \<Rightarrow> Inr None
             | Some sel \<Rightarrow>
                 if sel = [] then Inr None
                 else
                   (case select_one L soup sel of
                      Inl exn \<Rightarrow> Inl exn
                    | Inr None \<Rightarrow> Inr None
                    | Inr (Some next_element) \<Rightarrow>
                        (case attrs L next_element ''href'' of
                           None \<Rightarrow> Inr None
                         | Some PNone \<Rightarrow> Inr None
                         | Some (PStr href) \<Rightarrow>
                             if href \<noteq> [] then
                               (case urljoin L current_url href of
                                  Inl exn \<Rightarrow> Inl exn
                                | Inr url \<Rightarrow> Inr (Some url))
                             else Inr None
                         | Some (PList hrefs) \<Rightarrow>
                             if hrefs \<noteq> [] then Inl TypeError else Inr None)))
      in case from_selector of
           Inl exn \<Rightarrow> (Inl exn, st)
         | Inr (Some url) \<Rightarrow> (Inr (Some url), st)
         | Inr None \<Rightarrow>
             (Inr None,
              if str_truthy (next_url_template cfg)
              then emit (Log WARNING ''URL template pagination'') st
              else st))"

definition selectors_of :: "site \<Rightarrow> selectors" where
  "selectors_of cfg =
     (case site_selectors cfg of
        Some sels \<Rightarrow> sels
      | None \<Rightarrow> \<lparr> sel_item = None, sel_fields = None \<rparr>)"

text \<open>
  The \<open>try\<close> block of the loop of \<open>scrape\<close>, for the page at \<open>current_url\<close>: fetch,
  extract, extend \<open>all_data\<close>, find the next URL. \<open>Inl\<close> is the exception that leaves
  the block, \<open>Inr\<close> the new value of \<open>current_url\<close>.
\<close>

definition try_page ::
  "'e lib \<Rightarrow> 'a scraper_scheme \<Rightarrow> site \<Rightarrow> string \<Rightarrow> item_data list \<times> state
     \<Rightarrow> (py_exn + string option) \<times> item_data list \<times> state" where
  "try_page L s cfg current_url x =
     (case x of (all_data, st) \<Rightarrow>
        (case static_fetch_page L s current_url st of
           (Inl exn, st1) \<Rightarrow> (Inl exn, all_data, st1)
         | (Inr soup, st1) \<Rightarrow>
             (case static_extract_data L soup (selectors_of cfg) of
                Inl exn \<Rightarrow> (Inl exn, all_data, st1)
              | Inr data \<Rightarrow>
                  (case get_next_page_url L cfg soup current_url st1 of
                     (Inl exn, st2) \<Rightarrow> (Inl exn, all_data @ data, st2)
                   | (Inr next_url, st2) \<Rightarrow> (Inr next_url, all_data @ data, st2)))))"

text \<open>
  The \<open>while current_url:\<close> loop of \<open>scrape\<close> for one start path. The loop may run for
  ever, so it is given fuel: one unit for each turn of the loop, that is for each call of
  \<open>fetch_page\<close>. \<open>OutOfFuel\<close> is not a state of the program: the loop was still running
  when the fuel ran out. \<open>Done\<close> is the loop left by its condition, \<open>Failed\<close> the loop left
  by \<open>break\<close> in the \<open>except\<close> branch. The result also gives the value of \<open>current_url\<close>
  when the loop is left.
\<close>

datatype path_status = Done | Failed | OutOfFuel

fun walk ::
  "'e lib \<Rightarrow> 'a scraper_scheme \<Rightarrow> site \<Rightarrow> nat \<Rightarrow> string option \<Rightarrow> item_data list \<times> state
     \<Rightarrow> path_status \<times> string option \<times> item_data list \<times> state" where
  "walk L s cfg fuel None (all_data, st) = (Done, None, all_data, st)"
| "walk L s cfg 0 (Some current_url) (all_data, st) =
     (if current_url = [] then (Done, Some current_url, all_data, st)
      else (OutOfFuel, Some current_url, all_data, st))"
| "walk L s cfg (Suc fuel) (Some current_url) (all_data, st) =
     (if current_url = [] then (Done, Some current_url, all_data, st)
      else
        (case try_page L s cfg current_url (all_data, emit (Log INFO current_url) st) of
           (Inl exn, all_data', st') \<Rightarrow>
             (Failed, Some current_url, all_data', emit (Log ERROR current_url) st')
         | (Inr next_url, all_data', st') \<Rightarrow> walk L s cfg fuel next_url (all_data', st')))"

text \<open>
  The \<open>for path in start_paths\<close> loop and \<open>scrape\<close>. \<open>Returned all_data\<close> is the list
  returned; \<open>Raised\<close> is an exception that leaves \<open>scrape\<close>, which only
  \<open>urljoin(self.base_url, path)\<close>, outside the \<open>try\<close>, can raise; \<open>StillRunning\<close> is a
  walk that was out of fuel (each path has the fuel for itself).
\<close>

datatype scrape_result = Returned "item_data list" | Raised py_exn | StillRunning

fun scrape_paths ::
  "'e lib \<Rightarrow> 'a scraper_scheme \<Rightarrow> site \<Rightarrow> nat \<Rightarrow> string list \<Rightarrow> item_data list \<times> state
     \<Rightarrow> scrape_result \<times> state" where
  "scrape_paths L s cfg fuel [] (all_data, st) = (Returned all_data, st)"
| "scrape_paths L s cfg fuel (path # rest) (all_data, st) =
     (case urljoin L (site_base_url cfg) path of
        Inl exn \<Rightarrow> (Raised exn, st)
      | Inr current_url \<Rightarrow>
          (case walk L s cfg fuel (Some current_url) (all_data, st) of
             (OutOfFuel, current_url', all_data', st') \<Rightarrow> (StillRunning, st')
           | (status, current_url', all_data', st') \<Rightarrow>
               scrape_paths L s cfg fuel rest (all_data', st')))"

definition static_scrape ::
  "'e lib \<Rightarrow> 'a scraper_scheme \<Rightarrow> site \<Rightarrow> nat \<Rightarrow> state \<Rightarrow> scrape_result \<times> state" where
  "static_scrape L s cfg fuel st =
     scrape_paths L s cfg fuel
       (case start_paths cfg of Some ps \<Rightarrow> ps | None \<Rightarrow> [''/'']) ([], st)"

section \<open>AsyncScraper.scrape_single_page and AsyncScraper.scrape\<close>

text \<open>
  One task of \<open>AsyncScraper.scrape\<close>: any exception of the fetch or of the extraction is
  logged and gives the empty list.
\<close>

definition scrape_single_page ::
  "'e lib \<Rightarrow> 'a scraper_scheme \<Rightarrow> string \<Rightarrow> selectors \<Rightarrow> state \<Rightarrow> item_data list \<times> state" where
  "scrape_single_page L s url sels st =
     (case async_fetch_page L s url st of
        (Inl exn, st1) \<Rightarrow> ([], emit (Log ERROR url) st1)
      | (Inr soup, st1) \<Rightarrow>
          (case async_extract_data L soup sels of
             Inl exn \<Rightarrow> ([], emit (Log ERROR url) st1)
           | Inr data \<Rightarrow> (data, st1)))"

text \<open>
  The loop over the results of \<open>asyncio.gather(*tasks, return_exceptions=True)\<close>: a result
  that is an exception is logged and skipped, any other extends \<open>all_data\<close>.
\<close>

fun gather_results :: "(py_exn + item_data list) list \<Rightarrow> item_data list \<Rightarrow> item_data list" where
  "gather_results [] all_data = all_data"
| "gather_results (Inl exn # results) all_data = gather_results results all_data"
| "gather_results (Inr result # results) all_data = gather_results results (all_data @ result)"

text \<open>The comprehension \<open>[urljoin(self.base_url, path) for path in start_paths]\<close>.\<close>

fun join_all :: "'e lib \<Rightarrow> string \<Rightarrow> string list \<Rightarrow> py_exn + string list" where
  "join_all L base [] = Inr []"
| "join_all L base (path # rest) =
     (case urljoin L base path of
        Inl exn \<Rightarrow> Inl exn
      | Inr url \<Rightarrow>
          (case join_all L base rest of
             Inl exn \<Rightarrow> Inl exn
           | Inr urls \<Rightarrow> Inr (url # urls)))"

text \<open>
  \<open>AsyncScraper.scrape\<close>. The tasks run concurrently; how their events interleave is not
  modelled. Each task is run on a state of its own, \<open>st\<close>, so that \<open>http_get n\<close> is the
  \<open>n\<close>-th request of the task; the results are gathered in the order of the URLs, as
  \<open>asyncio.gather\<close> gives them. \<open>scrape_single_page\<close> catches every exception, so each
  result is a list.
\<close>

definition async_scrape ::
  "'e lib \<Rightarrow> 'a scraper_scheme \<Rightarrow> site \<Rightarrow> state \<Rightarrow> py_exn + item_data list" where
  "async_scrape L s cfg st =
     (case join_all L (site_base_url cfg)
             (case start_paths cfg of Some ps \<Rightarrow> ps | None \<Rightarrow> [''/'']) of
        Inl exn \<Rightarrow> Inl exn
      | Inr urls \<Rightarrow>
          Inr (gather_results
                 (map (\<lambda>url. Inr (fst (scrape_single_page L s url (selectors_of cfg) st))) urls)
                 []))"

section \<open>JSScraper.extract_data\<close>

text \<open>
  The browser is a parameter as well. Every call of Selenium may raise.
  \<^item> \<open>wait_until_present s\<close> is \<open>self.wait.until(EC.presence_of_element_located(...))\<close>:
    it raises \<open>TimeoutException\<close> when no element shows up in time;
  \<^item> \<open>driver_find_elements s\<close> is \<open>self.driver.find_elements(By.CSS_SELECTOR, s)\<close>;
  \<^item> \<open>find_elements e s\<close> is \<open>e.find_elements(By.CSS_SELECTOR, s)\<close>;
  \<^item> \<open>elem_text e\<close> is \<open>e.text\<close>;
  \<^item> \<open>get_attribute e a\<close> is \<open>e.get_attribute(a)\<close>, \<open>None\<close> for an attribute that
    is not there;
  \<^item> \<open>str_strip t\<close> is Python's \<open>t.strip()\<close>.
\<close>

record 'e webdriver =
  wait_until_present :: "string \<Rightarrow> py_exn + unit"
  driver_find_elements :: "string \<Rightarrow> py_exn + 'e list"
  find_elements :: "'e \<Rightarrow> string \<Rightarrow> py_exn + 'e list"
  elem_text :: "'e \<Rightarrow> py_exn + string"
  get_attribute :: "'e \<Rightarrow> string \<Rightarrow> py_exn + string option"
  str_strip :: "string \<Rightarrow> string"

text \<open>The comprehension \<open>[elem.text.strip() for elem in elements]\<close>.\<close>

fun js_texts :: "'e webdriver \<Rightarrow> 'e list \<Rightarrow> py_exn + string list" where
  "js_texts W [] = Inr []"
| "js_texts W (elem # rest) =
     (case elem_text W elem of
        Inl exn \<Rightarrow> Inl exn
      | Inr t \<Rightarrow>
          (case js_texts W rest of
             Inl exn \<Rightarrow> Inl exn
           | Inr ts \<Rightarrow> Inr (str_strip W t # ts)))"

text \<open>The body of the \<open>try\<close> for one field.\<close>

fun js_field :: "'e webdriver \<Rightarrow> 'e \<Rightarrow> field_selector \<Rightarrow> py_exn + pyval option" where
  "js_field W element (Simple selector) =
     (case find_elements W element selector of
        Inl exn \<Rightarrow> Inl exn
      | Inr elements \<Rightarrow>
          if elements \<noteq> [] then
            if length elements > 1 then
              (case js_texts W elements of
                 Inl exn \<Rightarrow> Inl exn
               | Inr ts \<Rightarrow> Inr (Some (PList ts)))
            else
              (case elem_text W (hd elements) of
                 Inl exn \<Rightarrow> Inl exn
               | Inr t \<Rightarrow> Inr (Some (PStr (str_strip W t))))
          else Inr (Some (PStr [])))"
| "js_field W element (Attributed attr_opt selector_opt) =
     (let attr = (case attr_opt of Some a \<Rightarrow> a | None \<Rightarrow> ''text'');
          css_selector = (case selector_opt of Some c \<Rightarrow> c | None \<Rightarrow> [])
      in case find_elements W element css_selector of
           Inl exn \<Rightarrow> Inl exn
         | Inr elements \<Rightarrow>
             if elements \<noteq> [] then
               if attr = ''text'' then
                 (case elem_text W (hd elements) of
                    Inl exn \<Rightarrow> Inl exn
                  | Inr t \<Rightarrow> Inr (Some (PStr (str_strip W t))))
               else
                 (case get_attribute W (hd elements) attr of
                    Inl exn \<Rightarrow> Inl exn
                  | Inr None \<Rightarrow> Inr (Some PNone)
                  | Inr (Some v) \<Rightarrow> Inr (Some (PStr v)))
             else Inr (Some (PStr [])))"
| "js_field W element Unsupported = Inr None"

text \<open>
  The loop over the fields: \<open>except Exception\<close> logs a warning about the field and stores
  the empty string.
\<close>

fun js_fields ::
  "'e webdriver \<Rightarrow> 'e \<Rightarrow> (string \<times> field_selector) list \<Rightarrow> item_data \<times> event list
     \<Rightarrow> item_data \<times> event list" where
  "js_fields W element [] (item_data, lg) = (item_data, lg)"
| "js_fields W element ((field_name, selector) # rest) (item_data, lg) =
     (case js_field W element selector of
        Inl exn \<Rightarrow>
          js_fields W element rest
            (AList.update field_name (PStr []) item_data, lg @ [Log WARNING field_name])
      | Inr None \<Rightarrow> js_fields W element rest (item_data, lg)
      | Inr (Some v) \<Rightarrow> js_fields W element rest (AList.update field_name v item_data, lg))"

fun js_items ::
  "'e webdriver \<Rightarrow> 'e list \<Rightarrow> (string \<times> field_selector) list \<Rightarrow> item_data list \<times> event list
     \<Rightarrow> item_data list \<times> event list" where
  "js_items W [] fs (items, lg) = (items, lg)"
| "js_items W (element # rest) fs (items, lg) =
     (case js_fields W element fs ([], lg) of
        (item_data, lg') \<Rightarrow> js_items W rest fs (items @ [item_data], lg'))"

definition js_extract_data ::
  "'e webdriver \<Rightarrow> selectors \<Rightarrow> event list \<Rightarrow> (py_exn + item_data list) \<times> event list" where
  "js_extract_data W sels lg =
     (case wait_until_present W (item_selector sels) of
        Inl exn \<Rightarrow>
          if exn = TimeoutException
          then (Inr [], lg @ [Log WARNING (item_selector sels)])
          else (Inl exn, lg)
      | Inr u \<Rightarrow>
          (case driver_find_elements W (item_selector sels) of
             Inl exn \<Rightarrow> (Inl exn, lg)
           | Inr item_elements \<Rightarrow>
               (case js_items W item_elements (field_selectors sels) ([], lg) of
                  (items, lg') \<Rightarrow> (Inr items, lg'))))"

text \<open>
  What the loop over the fields of \<open>JSScraper.extract_data\<close> is to give for one item
  element: each field holds the value of its selector, or the empty string when the
  evaluation raised; and a warning is logged for each field whose evaluation raised.
\<close>

definition contained_value :: "'e webdriver \<Rightarrow> 'e \<Rightarrow> field_selector \<Rightarrow> pyval" where
  "contained_value W element selector =
     (case js_field W element selector of
        Inl exn \<Rightarrow> PStr []
      | Inr None \<Rightarrow> PStr []
      | Inr (Some v) \<Rightarrow> v)"

definition contained_record ::
  "'e webdriver \<Rightarrow> (string \<times> field_selector) list \<Rightarrow> 'e \<Rightarrow> item_data" where
  "contained_record W fs element =
     map (\<lambda>(field_name, selector). (field_name, contained_value W element selector)) fs"

definition field_warnings ::
  "'e webdriver \<Rightarrow> (string \<times> field_selector) list \<Rightarrow> 'e \<Rightarrow> event list" where
  "field_warnings W fs element =
     map (\<lambda>(field_name, selector). Log WARNING field_name)
       (filter (\<lambda>(field_name, selector). isl (js_field W element selector)) fs)"

section \<open>The extraction contract in the words of the specification\<close>

text \<open>
  A simple selector: the trimmed text of the one match, the sequence of the trimmed texts
  of several matches in their order, the empty string for no match. An attributed
  selector: the named attribute of the first match, or its trimmed text when the attribute
  is \<open>text\<close>; the empty string for no match and for an attribute that is not there.
  The matches are those within the root element of the record.
\<close>

definition spec_simple :: "'e lib \<Rightarrow> 'e list \<Rightarrow> pyval" where
  "spec_simple L matches =
     (case matches of
        [] \<Rightarrow> PStr []
      | [m] \<Rightarrow> PStr (get_text L m)
      | m # m' # ms \<Rightarrow> PList (map (get_text L) matches))"

definition spec_attributed :: "'e lib \<Rightarrow> string \<Rightarrow> 'e list \<Rightarrow> pyval" where
  "spec_attributed L attr matches =
     (case matches of
        [] \<Rightarrow> PStr []
      | m # ms \<Rightarrow>
          if attr = ''text'' then PStr (get_text L m)
          else (case attrs L m attr of None \<Rightarrow> PStr [] | Some v \<Rightarrow> v))"

definition matches_within :: "'e lib \<Rightarrow> 'e \<Rightarrow> string \<Rightarrow> 'e list" where
  "matches_within L rt css = (case select L rt css of Inr ms \<Rightarrow> ms | Inl exn \<Rightarrow> [])"

fun css_of :: "field_selector \<Rightarrow> string" where
  "css_of (Simple selector) = selector"
| "css_of (Attributed attr_opt selector_opt) = (case selector_opt of Some c \<Rightarrow> c | None \<Rightarrow> [])"
| "css_of Unsupported = []"

fun spec_field :: "'e lib \<Rightarrow> 'e \<Rightarrow> field_selector \<Rightarrow> pyval" where
  "spec_field L rt (Simple selector) = spec_simple L (matches_within L rt selector)"
| "spec_field L rt (Attributed attr_opt selector_opt) =
     spec_attributed L (case attr_opt of Some a \<Rightarrow> a | None \<Rightarrow> ''text'')
       (matches_within L rt (case selector_opt of Some c \<Rightarrow> c | None \<Rightarrow> []))"
| "spec_field L rt Unsupported = PStr []"

definition spec_record :: "'e lib \<Rightarrow> (string \<times> field_selector) list \<Rightarrow> 'e \<Rightarrow> item_data" where
  "spec_record L fs rt = map (\<lambda>(field_name, selector). (field_name, spec_field L rt selector)) fs"

text \<open>A schema whose field selectors the selector engine can evaluate on an element.\<close>

definition evaluable :: "'e lib \<Rightarrow> (string \<times> field_selector) list \<Rightarrow> 'e \<Rightarrow> bool" where
  "evaluable L fs rt =
     list_all (\<lambda>(field_name, selector).
                 selector \<noteq> Unsupported \<and> \<not> isl (select L rt (css_of selector))) fs"

section \<open>Test documents\<close>

text \<open>
  Concrete inputs for the theorems below: a small document tree with a selector engine
  for the selectors \<open>.class\<close> and \<open>tag\<close> (any other selector is a syntax error, as the
  empty selector and \<open>div[\<close> are for the real engine); a \<open>strip\<close> for ASCII text; a stub
  of \<open>urljoin\<close> that agrees with urllib on an absolute reference, on a path joined to a
  bare origin, and on a reference with an unmatched bracket such as \<open>http://[x\<close>, which
  is a \<open>ValueError\<close>; and the sleeping and adding of Python on the numbers used below.
\<close>

datatype node = Tag string "(string \<times> pyval) list" "node list" | Txt string

definition is_space :: "char \<Rightarrow> bool" where
  "is_space c = (c \<in> set [CHR '' '', CHR 0x09, CHR 0x0A, CHR 0x0B, CHR 0x0C, CHR 0x0D,
                           CHR 0x1C, CHR 0x1D, CHR 0x1E, CHR 0x1F])"

definition ascii_strip :: "string \<Rightarrow> string" where
  "ascii_strip s = rev (dropWhile is_space (rev (dropWhile is_space s)))"

fun descendants :: "node \<Rightarrow> node list" where
  "descendants (Txt t) = []"
| "descendants (Tag name as kids) = concat (map (\<lambda>k. k # descendants k) kids)"

fun doc_text :: "node \<Rightarrow> string" where
  "doc_text (Txt t) = ascii_strip t"
| "doc_text (Tag name as kids) = concat (map doc_text kids)"

fun doc_attrs :: "node \<Rightarrow> string \<Rightarrow> pyval option" where
  "doc_attrs (Txt t) a = None"
| "doc_attrs (Tag name as kids) a = map_of as a"

fun has_class :: "string \<Rightarrow> node \<Rightarrow> bool" where
  "has_class c (Txt t) = False"
| "has_class c (Tag name as kids) =
     (case map_of as ''class'' of Some (PList cs) \<Rightarrow> c \<in> set cs | _ \<Rightarrow> False)"

fun has_tag :: "string \<Rightarrow> node \<Rightarrow> bool" where
  "has_tag n (Txt t) = False"
| "has_tag n (Tag name as kids) = (name = n)"

definition is_ident :: "string \<Rightarrow> bool" where
  "is_ident s =
     (s \<noteq> [] \<and> list_all (\<lambda>c. c \<in> set ''abcdefghijklmnopqrstuvwxyz0123456789-_'') s)"

definition doc_select :: "node \<Rightarrow> string \<Rightarrow> py_exn + node list" where
  "doc_select n css =
     (case css of
        [] \<Rightarrow> Inl SelectorSyntaxError
      | c # cs \<Rightarrow>
          if c = CHR ''.'' then
            (if is_ident cs then Inr (filter (has_class cs) (descendants n))
             else Inl SelectorSyntaxError)
          else if is_ident css then Inr (filter (has_tag css) (descendants n))
          else Inl SelectorSyntaxError)"

definition stub_urljoin :: "string \<Rightarrow> string \<Rightarrow> py_exn + string" where
  "stub_urljoin base url =
     (if (CHR ''['' \<in> set url) \<noteq> (CHR '']'' \<in> set url) then Inl ValueError
      else if url = [] then Inr base
      else if take 4 url = ''http'' then Inr url
      else Inr (base @ url))"

definition stub_add :: "json \<Rightarrow> real \<Rightarrow> py_exn + json" where
  "stub_add d u = (case num_of d of None \<Rightarrow> Inl TypeError | Some x \<Rightarrow> Inr (JFloat (x + u)))"

definition stub_time_sleep :: "json \<Rightarrow> py_exn option" where
  "stub_time_sleep d =
     (case num_of d of
        None \<Rightarrow> Some TypeError
      | Some x \<Rightarrow>
          if x < 0 then Some ValueError
          else if 9223372036 < x then Some OverflowError
          else None)"

definition stub_asyncio_sleep :: "json \<Rightarrow> py_exn option" where
  "stub_asyncio_sleep d = (case num_of d of None \<Rightarrow> Some TypeError | Some x \<Rightarrow> None)"

definition test_lib :: "(nat \<Rightarrow> string \<Rightarrow> py_exn + node) \<Rightarrow> node lib" where
  "test_lib net =
     \<lparr> select = doc_select, get_text = doc_text, attrs = doc_attrs,
       urljoin = stub_urljoin, http_get = net, uniform = (\<lambda>n. 1 / 2),
       add_jitter = stub_add, time_sleep = stub_time_sleep,
       asyncio_sleep = stub_asyncio_sleep \<rparr>"

text \<open>
  A browser showing a document: the wait times out when nothing matches, and a selector
  that is a syntax error is an exception of the driver.
\<close>

definition test_driver :: "node \<Rightarrow> node webdriver" where
  "test_driver page =
     \<lparr> wait_until_present =
         (\<lambda>css. case doc_select page css of
                   Inl exn \<Rightarrow> Inl WebDriverException
                 | Inr [] \<Rightarrow> Inl TimeoutException
                 | Inr (x # xs) \<Rightarrow> Inr ()),
       driver_find_elements =
         (\<lambda>css. case doc_select page css of
                   Inl exn \<Rightarrow> Inl WebDriverException
                 | Inr xs \<Rightarrow> Inr xs),
       find_elements =
         (\<lambda>e css. case doc_select e css of
                     Inl exn \<Rightarrow> Inl WebDriverException
                   | Inr xs \<Rightarrow> Inr xs),
       elem_text = (\<lambda>e. Inr (doc_text e)),
       get_attribute =
         (\<lambda>e a. case doc_attrs e a of
                   Some (PStr v) \<Rightarrow> Inr (Some v)
                 | Some (PList vs) \<Rightarrow> Inr (Some (concat vs))
                 | _ \<Rightarrow> Inr None),
       str_strip = ascii_strip \<rparr>"

text \<open>
  The page of the tests of the repository, with a second item that has two tags, a
  link without \<open>href\<close> and no title:
  \<^verbatim>\<open><html><div class="item"><div class="title"> Test Title </div>
          <a class="link" href="/t">more</a></div>
        <div class="item"><span class="tag">a</span><span class="tag">b</span>
          <a class="link">more</a></div></html>\<close>
\<close>

definition item_one :: node where
  "item_one =
     Tag ''div'' [(''class'', PList [''item''])]
       [Tag ''div'' [(''class'', PList [''title''])] [Txt '' Test Title ''],
        Tag ''a'' [(''class'', PList [''link'']), (''href'', PStr ''/t'')] [Txt ''more'']]"

definition item_two :: node where
  "item_two =
     Tag ''div'' [(''class'', PList [''item''])]
       [Tag ''span'' [(''class'', PList [''tag''])] [Txt ''a''],
        Tag ''span'' [(''class'', PList [''tag''])] [Txt ''b''],
        Tag ''a'' [(''class'', PList [''link''])] [Txt ''more'']]"

definition items_page :: node where
  "items_page = Tag ''html'' [] [item_one, item_two]"

definition test_selectors :: selectors where
  "test_selectors =
     \<lparr> sel_item = Some ''.item'',
       sel_fields = Some [(''title'', Simple ''.title''),
                          (''tag'', Simple ''.tag''),
                          (''url'', Attributed (Some ''href'') (Some ''.link''))] \<rparr>"

text \<open>The same schema with a field selector that the engine cannot parse.\<close>

definition broken_selectors :: selectors where
  "broken_selectors =
     \<lparr> sel_item = Some ''.item'',
       sel_fields = Some [(''title'', Simple ''div[''),
                          (''tag'', Simple ''.tag'')] \<rparr>"

section \<open>Test configurations and networks\<close>

definition start_state :: state where
  "start_state = \<lparr> trace = [], requests = 0, draws = 0 \<rparr>"

text \<open>A configuration that sets the delay to zero, with jitter.\<close>

definition zero_delay_config :: json where
  "zero_delay_config =
     JObj [(''base_url'', JStr ''https://example.com''),
           (''rate_limit'', JObj [(''delay_seconds'', JInt 0), (''jitter'', JBool True)])]"

text \<open>
  A configuration that asks for five attempts, under every key where a reader might look
  for it, and for a delay of two seconds without jitter.
\<close>

definition five_attempts_config :: json where
  "five_attempts_config =
     JObj [(''base_url'', JStr ''https://example.com''),
           (''retry_attempts'', JInt 5),
           (''rate_limit'', JObj [(''delay_seconds'', JFloat 2), (''jitter'', JBool False),
                                  (''retry_attempts'', JInt 5)])]"

text \<open>A network whose first \<open>k\<close> requests fail and whose later requests give a page.\<close>

definition failing_first :: "nat \<Rightarrow> node \<Rightarrow> nat \<Rightarrow> string \<Rightarrow> py_exn + node" where
  "failing_first k page n url = (if n < k then Inl RequestException else Inr page)"

text \<open>A network that serves a fixed page for each URL it knows.\<close>

definition serve :: "(string \<Rightarrow> node option) \<Rightarrow> nat \<Rightarrow> string \<Rightarrow> py_exn + node" where
  "serve pages n url = (case pages url of Some page \<Rightarrow> Inr page | None \<Rightarrow> Inl RequestException)"

text \<open>The URL of the tests, and two scrapers built from the test configurations.\<close>

definition test_url :: string where
  "test_url = ''https://example.com/''"


definition plain_scraper :: static_scraper where
  "plain_scraper = StaticScraper_init five_attempts_config"

text \<open>
  A site of two pages, the first with a link to the second, and a site whose only page
  links to itself:
  \<^verbatim>\<open><a class="next" href="https://example.com/page2">next</a>\<close> and
  \<^verbatim>\<open><a class="next" href="https://example.com/">next</a>\<close>.
\<close>

definition next_link :: "string \<Rightarrow> node" where
  "next_link href = Tag ''a'' [(''class'', PList [''next'']), (''href'', PStr href)] [Txt ''next'']"

definition first_page :: node where
  "first_page = Tag ''html'' [] [item_one, next_link ''https://example.com/page2'']"


definition two_pages :: "string \<Rightarrow> node option" where
  "two_pages url =
     (if url = ''https://example.com/'' then Some first_page
      else if url = ''https://example.com/page2'' then Some items_page
      else None)"


text \<open>
  The configuration of the tests of the repository, with a start path that the site does
  not serve before the one it does.
\<close>

definition test_site :: site where
  "test_site =
     \<lparr> site_base_url = ''https://example.com'',
       start_paths = Some [''/down'', ''/''],
       site_selectors = Some test_selectors,
       next_selector = Some ''.next'',
       next_url_template = None \<rparr>"



text \<open>
  The same configuration with the schema that has a field selector the engine cannot
  parse; a page whose next link has a reference that \<open>urljoin\<close> cannot parse, and a
  site that serves it; a configuration whose start paths are one that the site does not
  serve, then such a reference, then one that the site serves; a scraper whose delay is too
  long for \<open>time.sleep\<close>.
\<close>

definition broken_site :: site where
  "broken_site = test_site\<lparr>site_selectors := Some broken_selectors\<rparr>"

definition bad_link_page :: node where
  "bad_link_page = Tag ''html'' [] [item_one, next_link ''http://[x'']"

definition bad_link :: "string \<Rightarrow> node option" where
  "bad_link url = (if url = ''https://example.com/'' then Some bad_link_page else None)"

definition bad_path_site :: site where
  "bad_path_site = test_site\<lparr>start_paths := Some [''/down'', ''http://[x'', ''/'']\<rparr>"

definition long_delay_config :: json where
  "long_delay_config =
     JObj [(''base_url'', JStr ''https://example.com''),
           (''rate_limit'', JObj [(''delay_seconds'', JFloat (10 ^ 30))])]"

definition long_delay_scraper :: static_scraper where
  "long_delay_scraper = StaticScraper_init long_delay_config"

section \<open>Properties of extract_data\<close>

lemma update_fresh: "k \<notin> fst ` set al \<Longrightarrow> AList.update k v al = al @ [(k, v)]"
  by (induction al) auto

lemma static_field_spec:
  assumes "selector \<noteq> Unsupported" and "\<not> isl (select L element (css_of selector))"
  shows "static_field L element selector = Inr (Some (spec_field L element selector))"
proof (cases selector)
  case (Simple css)
  with assms obtain ms where ms: "select L element css = Inr ms"
    by (cases "select L element css") auto
  show ?thesis
  proof (cases ms)
    case Nil
    with Simple ms show ?thesis by (simp add: spec_simple_def matches_within_def)
  next
    case (Cons m rest)
    with Simple ms show ?thesis
      by (cases rest) (simp_all add: spec_simple_def matches_within_def)
  qed
next
  case (Attributed attr_opt selector_opt)
  with assms obtain ms where ms: "select L element (css_of selector) = Inr ms"
    by (cases "select L element (css_of selector)") auto
  with Attributed show ?thesis
    by (cases ms) (simp_all add: spec_attributed_def matches_within_def Let_def)
next
  case Unsupported
  with assms show ?thesis by simp
qed

lemma static_fields_spec:
  assumes "evaluable L fs element" and "distinct (map fst fs)"
    and "fst ` set acc \<inter> fst ` set fs = {}"
  shows "static_fields L element fs acc = Inr (acc @ spec_record L fs element)"
  using assms
proof (induction fs arbitrary: acc)
  case Nil
  then show ?case by (simp add: spec_record_def)
next
  case (Cons f fs)
  obtain field_name selector where f: "f = (field_name, selector)" by (cases f)
  from Cons.prems(1) f have sel: "selector \<noteq> Unsupported"
    "\<not> isl (select L element (css_of selector))" and rest: "evaluable L fs element"
    by (simp_all add: evaluable_def)
  from Cons.prems(3) f have fresh: "field_name \<notin> fst ` set acc" by auto
  have disj: "fst ` set (acc @ [(field_name, spec_field L element selector)]) \<inter> fst ` set fs = {}"
    using Cons.prems(2,3) f by auto
  from Cons.prems(2) have dist: "distinct (map fst fs)" by simp
  have "static_fields L element (f # fs) acc =
        static_fields L element fs (acc @ [(field_name, spec_field L element selector)])"
    using f static_field_spec [OF sel] update_fresh [OF fresh] by simp
  also have "\<dots> = Inr ((acc @ [(field_name, spec_field L element selector)]) @ spec_record L fs element)"
    by (rule Cons.IH [OF rest dist disj])
  finally show ?case using f by (simp add: spec_record_def)
qed

lemma static_items_spec:
  assumes "list_all (evaluable L fs) elements" and "distinct (map fst fs)"
  shows "static_items L elements fs acc = Inr (acc @ map (spec_record L fs) elements)"
  using assms
proof (induction elements arbitrary: acc)
  case Nil
  then show ?case by simp
next
  case (Cons element rest)
  then have "static_fields L element fs [] = Inr (spec_record L fs element)"
    using static_fields_spec [of L fs element "[]"] by simp
  with Cons show ?case by simp
qed

lemma async_field_eq: "async_field L element selector = static_field L element selector"
  by (cases selector) simp_all

lemma async_fields_eq: "async_fields L element fs acc = static_fields L element fs acc"
  by (induction fs arbitrary: acc) (auto simp: async_field_eq split: sum.splits option.splits)

lemma async_items_eq: "async_items L elements fs acc = static_items L elements fs acc"
  by (induction elements arbitrary: acc) (auto simp: async_fields_eq split: sum.splits)

text \<open>
  C1. When the item selector gives the item elements, the field names are those of a dict
  (no name twice) and the selector engine evaluates every field selector on every item
  element, \<open>StaticScraper.extract_data\<close> returns one record for each item element, in
  their order, and each field of a record holds what the specification says of the matches
  of its selector within that item element: for a simple selector the trimmed text of the
  one match, the list of the trimmed texts of several matches, the empty string for none;
  for an attributed selector the attribute of the first match (its trimmed text for
  \<open>text\<close>), the empty string for no match and for an attribute that is not there.
\<close>

theorem extract_data_contract:
  assumes "select L soup (item_selector sels) = Inr item_elements"
    and "distinct (map fst (field_selectors sels))"
    and "list_all (evaluable L (field_selectors sels)) item_elements"
  shows "static_extract_data L soup sels =
           Inr (map (spec_record L (field_selectors sels)) item_elements)"
  using assms static_items_spec [of L "field_selectors sels" item_elements "[]"]
  by (simp add: static_extract_data_def)

theorem extract_data_contract_witness:
  "select (test_lib (\<lambda>n u. Inl RequestException)) items_page (item_selector test_selectors)
     = Inr [item_one, item_two]
   \<and> distinct (map fst (field_selectors test_selectors))
   \<and> list_all (evaluable (test_lib (\<lambda>n u. Inl RequestException))
                 (field_selectors test_selectors)) [item_one, item_two]
   \<and> static_extract_data (test_lib (\<lambda>n u. Inl RequestException)) items_page test_selectors =
       Inr [[(''title'', PStr ''Test Title''), (''tag'', PStr []), (''url'', PStr ''/t'')],
            [(''title'', PStr []), (''tag'', PList [''a'', ''b'']), (''url'', PStr [])]]"
proof -
  let ?L = "test_lib (\<lambda>n u. Inl RequestException)"
  have a: "select ?L items_page (item_selector test_selectors) = Inr [item_one, item_two]"
    by code_simp
  have b: "distinct (map fst (field_selectors test_selectors))"
    by code_simp
  have c: "list_all (evaluable ?L (field_selectors test_selectors)) [item_one, item_two]"
    by code_simp
  have d: "map (spec_record ?L (field_selectors test_selectors)) [item_one, item_two] =
       [[(''title'', PStr ''Test Title''), (''tag'', PStr []), (''url'', PStr ''/t'')],
        [(''title'', PStr []), (''tag'', PList [''a'', ''b'']), (''url'', PStr [])]]"
    by code_simp
  from extract_data_contract [OF a b c] a b c d show ?thesis by simp
qed

text \<open>
  C5. When the item selector matches no element of the document, \<open>extract_data\<close> of the
  static and of the concurrent scraper returns the empty list, and not an exception.
\<close>

theorem extract_data_no_items:
  assumes "select L soup (item_selector sels) = Inr []"
  shows "static_extract_data L soup sels = Inr [] \<and> async_extract_data L soup sels = Inr []"
  using assms by (simp add: static_extract_data_def async_extract_data_def)

theorem extract_data_no_items_witness:
  "select (test_lib (\<lambda>n u. Inl RequestException)) items_page ''.missing'' = Inr []
   \<and> static_extract_data (test_lib (\<lambda>n u. Inl RequestException)) items_page
        (test_selectors\<lparr>sel_item := Some ''.missing''\<rparr>) = Inr []
   \<and> async_extract_data (test_lib (\<lambda>n u. Inl RequestException)) items_page
        (test_selectors\<lparr>sel_item := Some ''.missing''\<rparr>) = Inr []"
proof -
  let ?L = "test_lib (\<lambda>n u. Inl RequestException)"
  have a: "select ?L items_page (item_selector (test_selectors\<lparr>sel_item := Some ''.missing''\<rparr>))
             = Inr []"
    by code_simp
  have b: "item_selector (test_selectors\<lparr>sel_item := Some ''.missing''\<rparr>) = ''.missing''"
    by (simp add: item_selector_def)
  from extract_data_no_items [OF a] a b show ?thesis by simp
qed

text \<open>
  C9. \<open>StaticScraper.extract_data\<close> and \<open>AsyncScraper.extract_data\<close> are the same
  function: on every document and every selectors mapping they return the same records,
  or raise the same exception.
\<close>

theorem static_async_extract_data_equal: "async_extract_data = static_extract_data"
  by (intro ext)
     (simp add: async_extract_data_def static_extract_data_def async_items_eq split: sum.splits)

section \<open>Properties of the constructors and of fetch_page\<close>

lemma py_or_falsy: "\<not> truthy x \<Longrightarrow> py_or x y = y"
  by (simp add: py_or_def)

lemma py_or_not_zero: "num_of (py_or x (JFloat 1)) \<noteq> Some 0"
  by (cases x) (auto simp: py_or_def)

text \<open>
  C10. When \<open>rate_limit.delay_seconds\<close> of the configuration is 0, or any other value that
  is false in Python, or is not there, the delay of the scraper is the default 1.0, in each
  of the three constructors; and whatever the configuration is, the delay of the scraper
  is never the number zero.
\<close>

theorem zero_delay_is_default:
  "(\<not> truthy (get_nested cfg [''rate_limit'', ''delay_seconds'']) \<longrightarrow>
      delay_seconds (StaticScraper_init cfg) = JFloat 1
    \<and> delay_seconds (AsyncScraper_init cfg) = JFloat 1
    \<and> delay_seconds (JSScraper_init cfg) = JFloat 1)
   \<and> num_of (delay_seconds (StaticScraper_init cfg)) \<noteq> Some 0
   \<and> num_of (delay_seconds (AsyncScraper_init cfg)) \<noteq> Some 0
   \<and> num_of (delay_seconds (JSScraper_init cfg)) \<noteq> Some 0"
  by (simp add: StaticScraper_init_def AsyncScraper_init_def JSScraper_init_def
        py_or_falsy py_or_not_zero)

theorem zero_delay_is_default_witness:
  "get_nested zero_delay_config [''rate_limit'', ''delay_seconds''] = JInt 0
   \<and> \<not> truthy (get_nested zero_delay_config [''rate_limit'', ''delay_seconds''])
   \<and> delay_seconds (StaticScraper_init zero_delay_config) = JFloat 1
   \<and> delay_seconds (AsyncScraper_init zero_delay_config) = JFloat 1
   \<and> delay_seconds (JSScraper_init zero_delay_config) = JFloat 1"
proof -
  have a: "get_nested zero_delay_config [''rate_limit'', ''delay_seconds''] = JInt 0"
    by (simp add: zero_delay_config_def get_nested_def)
  then have b: "\<not> truthy (get_nested zero_delay_config [''rate_limit'', ''delay_seconds''])"
    by simp
  from zero_delay_is_default [of zero_delay_config] a b show ?thesis by simp
qed

section \<open>Properties of the handling of field failures\<close>

lemma js_field_supported: "selector \<noteq> Unsupported \<Longrightarrow> js_field W element selector \<noteq> Inr None"
  by (cases selector) (auto simp: Let_def split: sum.splits option.splits)

lemma js_fields_contained:
  assumes "list_all (\<lambda>(field_name, selector). selector \<noteq> Unsupported) fs"
    and "distinct (map fst fs)"
    and "fst ` set acc \<inter> fst ` set fs = {}"
  shows "js_fields W element fs (acc, lg)
           = (acc @ contained_record W fs element, lg @ field_warnings W fs element)"
  using assms
proof (induction fs arbitrary: acc lg)
  case Nil
  then show ?case by (simp add: contained_record_def field_warnings_def)
next
  case (Cons f fs)
  obtain field_name selector where f: "f = (field_name, selector)" by (cases f)
  from Cons.prems(1) f have sup: "selector \<noteq> Unsupported"
    and rest: "list_all (\<lambda>(field_name, selector). selector \<noteq> Unsupported) fs" by simp_all
  from Cons.prems(2) have dist: "distinct (map fst fs)" by simp
  from Cons.prems(3) f have fresh: "field_name \<notin> fst ` set acc" by auto
  have disj: "fst ` set (acc @ [(field_name, v)]) \<inter> fst ` set fs = {}" for v
    using Cons.prems(2,3) f by auto
  show ?case
  proof (cases "js_field W element selector")
    case (Inl exn)
    have "js_fields W element (f # fs) (acc, lg) =
          js_fields W element fs (acc @ [(field_name, PStr [])], lg @ [Log WARNING field_name])"
      using f Inl update_fresh [OF fresh] by simp
    also have "\<dots> = ((acc @ [(field_name, PStr [])]) @ contained_record W fs element,
                     (lg @ [Log WARNING field_name]) @ field_warnings W fs element)"
      by (rule Cons.IH [OF rest dist disj])
    finally show ?thesis
      using f Inl by (simp add: contained_record_def field_warnings_def contained_value_def)
  next
    case (Inr r)
    with js_field_supported [OF sup, of W element] obtain v where v: "r = Some v"
      by (cases r) auto
    have "js_fields W element (f # fs) (acc, lg) =
          js_fields W element fs (acc @ [(field_name, v)], lg)"
      using f Inr v update_fresh [OF fresh] by simp
    also have "\<dots> = ((acc @ [(field_name, v)]) @ contained_record W fs element,
                     lg @ field_warnings W fs element)"
      by (rule Cons.IH [OF rest dist disj])
    finally show ?thesis
      using f Inr v by (simp add: contained_record_def field_warnings_def contained_value_def)
  qed
qed

lemma js_items_contained:
  assumes "list_all (\<lambda>(field_name, selector). selector \<noteq> Unsupported) fs"
    and "distinct (map fst fs)"
  shows "js_items W elements fs (items, lg)
           = (items @ map (contained_record W fs) elements,
              lg @ concat (map (field_warnings W fs) elements))"
proof (induction elements arbitrary: items lg)
  case Nil
  then show ?case by simp
next
  case (Cons element rest)
  have "js_fields W element fs ([], lg)
          = (contained_record W fs element, lg @ field_warnings W fs element)"
    using js_fields_contained [OF assms, of "[]" W element lg] by simp
  with Cons show ?case by simp
qed

text \<open>
  C2, as amended. In \<open>JSScraper.extract_data\<close>, once the item elements are found, an
  exception raised while a field of an item is evaluated does not abort that item or the
  items after it: the call returns one record for each item element, in which a field whose
  evaluation raised holds the empty string and every other field holds its value, and it
  logs one warning for each field whose evaluation raised. In \<open>StaticScraper.extract_data\<close>
  an attribute that is not there on the first match is not a failure: the field holds the
  empty string, and the method logs nothing.
\<close>

theorem browser_field_failure_contained:
  assumes "wait_until_present W (item_selector sels) = Inr ()"
    and "driver_find_elements W (item_selector sels) = Inr item_elements"
    and "distinct (map fst (field_selectors sels))"
    and "list_all (\<lambda>(field_name, selector). selector \<noteq> Unsupported) (field_selectors sels)"
  shows "js_extract_data W sels lg
           = (Inr (map (contained_record W (field_selectors sels)) item_elements),
              lg @ concat (map (field_warnings W (field_selectors sels)) item_elements))
       \<and> (select L element css = Inr (m # ms) \<and> attr \<noteq> ''text'' \<and> attrs L m attr = None \<longrightarrow>
            static_field L element (Attributed (Some attr) (Some css)) = Inr (Some (PStr [])))"
  using assms js_items_contained [OF assms(4,3), of W item_elements "[]" lg]
  by (simp add: js_extract_data_def)

theorem browser_field_failure_contained_witness:
  "wait_until_present (test_driver items_page) (item_selector broken_selectors) = Inr ()
   \<and> driver_find_elements (test_driver items_page) (item_selector broken_selectors)
       = Inr [item_one, item_two]
   \<and> distinct (map fst (field_selectors broken_selectors))
   \<and> list_all (\<lambda>(field_name, selector). selector \<noteq> Unsupported)
        (field_selectors broken_selectors)
   \<and> isl (js_field (test_driver items_page) item_one (Simple ''div[''))
   \<and> js_extract_data (test_driver items_page) broken_selectors []
       = (Inr [[(''title'', PStr []), (''tag'', PStr [])],
               [(''title'', PStr []), (''tag'', PList [''a'', ''b''])]],
          [Log WARNING ''title'', Log WARNING ''title''])
   \<and> select (test_lib (serve two_pages)) item_two ''.link''
       = Inr [Tag ''a'' [(''class'', PList [''link''])] [Txt ''more'']]
   \<and> attrs (test_lib (serve two_pages)) (Tag ''a'' [(''class'', PList [''link''])] [Txt ''more''])
        ''href'' = None
   \<and> static_field (test_lib (serve two_pages)) item_two (Attributed (Some ''href'') (Some ''.link''))
       = Inr (Some (PStr []))"
proof -
  let ?W = "test_driver items_page"
  let ?L = "test_lib (serve two_pages)"
  let ?a = "Tag ''a'' [(''class'', PList [''link''])] [Txt ''more'']"
  have a: "wait_until_present ?W (item_selector broken_selectors) = Inr ()" by code_simp
  have b: "driver_find_elements ?W (item_selector broken_selectors) = Inr [item_one, item_two]"
    by code_simp
  have c: "distinct (map fst (field_selectors broken_selectors))" by code_simp
  have d: "list_all (\<lambda>(field_name, selector). selector \<noteq> Unsupported)
             (field_selectors broken_selectors)" by code_simp
  have e: "isl (js_field ?W item_one (Simple ''div[''))" by code_simp
  have r: "map (contained_record ?W (field_selectors broken_selectors)) [item_one, item_two]
             = [[(''title'', PStr []), (''tag'', PStr [])],
                [(''title'', PStr []), (''tag'', PList [''a'', ''b''])]]" by code_simp
  have w: "[] @ concat (map (field_warnings ?W (field_selectors broken_selectors))
                          [item_one, item_two])
             = [Log WARNING ''title'', Log WARNING ''title'']" by code_simp
  have s: "select ?L item_two ''.link'' = Inr (?a # [])" by code_simp
  have h: "attrs ?L ?a ''href'' = None" by code_simp
  have t: "''href'' \<noteq> ''text''" by simp
  from browser_field_failure_contained [OF a b c d, of "[]" ?L item_two "''.link''" ?a "[]"
      "''href''"] r w s h t
  have "js_extract_data ?W broken_selectors []
       = (Inr [[(''title'', PStr []), (''tag'', PStr [])],
               [(''title'', PStr []), (''tag'', PList [''a'', ''b''])]],
          [Log WARNING ''title'', Log WARNING ''title''])
     \<and> static_field ?L item_two (Attributed (Some ''href'') (Some ''.link''))
         = Inr (Some (PStr []))"
    by simp
  with a b c d e s h show ?thesis by blast
qed

text \<open>
  C2 as stated fails: the link of the second item has no \<open>href\<close>; the field holds the
  empty string, and there is no warning in the trace of the whole run.
\<close>

theorem missing_attribute_gives_no_warning:
  "static_extract_data (test_lib (serve two_pages)) items_page test_selectors
     = Inr [[(''title'', PStr ''Test Title''), (''tag'', PStr []), (''url'', PStr ''/t'')],
            [(''title'', PStr []), (''tag'', PList [''a'', ''b'']), (''url'', PStr [])]]
   \<and> warnings (trace (snd (static_scrape (test_lib (serve two_pages)) plain_scraper test_site 5
                             start_state))) = []"
  by code_simp

text \<open>
  What the amended claim leaves out: \<open>StaticScraper.extract_data\<close> has no \<open>try\<close> around
  the evaluation of a field, unlike \<open>JSScraper.extract_data\<close>, so a field selector that
  the engine cannot parse makes the whole call raise, and no record is returned.
\<close>

lemma static_extract_data_raises:
  "static_extract_data (test_lib (serve two_pages)) items_page broken_selectors
     = Inl SelectorSyntaxError"
  by code_simp

section \<open>Properties of fetch_page\<close>

lemma backoffs_append: "backoffs (xs @ ys) = backoffs xs @ backoffs ys"
  by (induction xs rule: backoffs.induct) simp_all

lemma requested_append: "requested (xs @ ys) = requested xs @ requested ys"
  by (induction xs rule: requested.induct) simp_all

lemma slept_append: "slept (xs @ ys) = slept xs @ slept ys"
  by (induction xs rule: slept.induct) simp_all


lemma new_events_append: "trace st' = trace st @ evs \<Longrightarrow> new_events st st' = evs"
  by (simp add: new_events_def)












lemma sleepable_draw:
  assumes "sleepable L s" and "truthy (jitter s)"
  shows "\<exists>d. add_jitter L (delay_seconds s) (uniform L n) = Inr d \<and> time_sleep L d = None"
proof -
  from assms have "case add_jitter L (delay_seconds s) (uniform L n) of
                     Inl exn \<Rightarrow> False | Inr d \<Rightarrow> time_sleep L d = None"
    by (simp add: sleepable_def)
  then show ?thesis by (cases "add_jitter L (delay_seconds s) (uniform L n)") auto
qed


lemma static_attempt_shape:
  assumes "sleepable L s"
  shows "\<exists>pre d post.
           static_fetch_attempt L s url st
             = (http_get L (requests st) url,
                st\<lparr>trace := trace st @ pre @ [Sleep d, Request url] @ post,
                   requests := Suc (requests st),
                   draws := (if truthy (jitter s) then Suc (draws st) else draws st)\<rparr>)
           \<and> requested pre = [] \<and> requested post = []
           \<and> slept pre = [] \<and> slept post = []
           \<and> backoffs pre = [] \<and> backoffs post = []"
proof -
  let ?ua = "if truthy (user_agents s) then [SetUserAgent] else []"
  let ?post = "case http_get L (requests st) url of
                 Inl exn \<Rightarrow> if exn = RequestException then [Log ERROR url] else []
               | Inr soup \<Rightarrow> []"
  have post: "requested ?post = [] \<and> slept ?post = [] \<and> backoffs ?post = []"
    by (simp split: sum.splits)
  show ?thesis
  proof (cases "truthy (jitter s)")
    case True
    from sleepable_draw [OF assms True, of "draws st"] obtain d where
      d: "add_jitter L (delay_seconds s) (uniform L (draws st)) = Inr d" "time_sleep L d = None"
      by blast
    let ?pre = "?ua @ [Draw (uniform L (draws st))]"
    have "static_fetch_attempt L s url st
             = (http_get L (requests st) url,
                st\<lparr>trace := trace st @ ?pre @ [Sleep d, Request url] @ ?post,
                   requests := Suc (requests st),
                   draws := (if truthy (jitter s) then Suc (draws st) else draws st)\<rparr>)"
      using True d
      by (auto simp: static_fetch_attempt_def Let_def emit_def split: sum.splits)
    moreover have "requested ?pre = [] \<and> slept ?pre = [] \<and> backoffs ?pre = []" by simp
    ultimately show ?thesis using post by blast
  next
    case False
    with assms have d: "time_sleep L (delay_seconds s) = None" by (simp add: sleepable_def)
    have "static_fetch_attempt L s url st
             = (http_get L (requests st) url,
                st\<lparr>trace := trace st @ ?ua @ [Sleep (delay_seconds s), Request url] @ ?post,
                   requests := Suc (requests st),
                   draws := (if truthy (jitter s) then Suc (draws st) else draws st)\<rparr>)"
      using False d
      by (auto simp: static_fetch_attempt_def Let_def emit_def split: sum.splits)
    moreover have "requested ?ua = [] \<and> slept ?ua = [] \<and> backoffs ?ua = []" by simp
    ultimately show ?thesis using post by blast
  qed
qed


lemma attempt_outcome_of_shape:
  assumes "\<exists>pre d post.
           body st
             = (out (requests st),
                st\<lparr>trace := trace st @ pre @ [Sleep d, Request url] @ post,
                   requests := Suc (requests st), draws := k\<rparr>)
           \<and> requested pre = [] \<and> requested post = []
           \<and> slept pre = [] \<and> slept post = []
           \<and> backoffs pre = [] \<and> backoffs post = []"
  shows "\<exists>st' evs. body st = (out (requests st), st')
           \<and> requests st' = Suc (requests st) \<and> trace st' = trace st @ evs
           \<and> backoffs evs = [] \<and> requested evs = [url] \<and> length (slept evs) = 1"
proof -
  from assms obtain pre d post where
    b: "body st
             = (out (requests st),
                st\<lparr>trace := trace st @ pre @ [Sleep d, Request url] @ post,
                   requests := Suc (requests st), draws := k\<rparr>)"
    and z: "requested pre = []" "requested post = []" "slept pre = []" "slept post = []"
      "backoffs pre = []" "backoffs post = []"
    by blast
  let ?evs = "pre @ [Sleep d, Request url] @ post"
  from z have "backoffs ?evs = [] \<and> requested ?evs = [url] \<and> length (slept ?evs) = 1"
    by (simp add: backoffs_append requested_append slept_append)
  with b show ?thesis by (intro exI [of _ "snd (body st)"] exI [of _ ?evs]) simp
qed

lemma static_attempt_outcome:
  assumes "sleepable L s"
  shows "\<exists>st' evs. static_fetch_attempt L s url st = (http_get L (requests st) url, st')
           \<and> requests st' = Suc (requests st) \<and> trace st' = trace st @ evs
           \<and> backoffs evs = [] \<and> requested evs = [url] \<and> length (slept evs) = 1"
  using static_attempt_shape [OF assms, of url st]
  by (intro attempt_outcome_of_shape [where body = "static_fetch_attempt L s url"
        and out = "\<lambda>n. http_get L n url" and url = url]) blast



lemma retrying_succeeds:
  assumes body: "\<And>st. \<exists>st' evs. body st = (out (requests st), st')
           \<and> requests st' = Suc (requests st) \<and> trace st' = trace st @ evs
           \<and> backoffs evs = [] \<and> requested evs = [url] \<and> length (slept evs) = 1"
    and "\<forall>i<k. isl (out (requests st + i))"
    and "out (requests st + k) = Inr r"
    and "a + k \<le> n"
  shows "\<exists>st' evs. retrying n w body a st = (Inr r, st')
           \<and> requests st' = requests st + k + 1 \<and> trace st' = trace st @ evs
           \<and> backoffs evs = map w [a..<a + k] \<and> requested evs = replicate (Suc k) url
           \<and> length (slept evs) = Suc k"
  using assms(2-4)
proof (induction k arbitrary: a st)
  case 0
  from body [of st] obtain st' evs where
    b: "body st = (out (requests st), st')" "requests st' = Suc (requests st)"
       "trace st' = trace st @ evs" "backoffs evs = []" "requested evs = [url]"
       "length (slept evs) = 1" by blast
  with 0 show ?case by (subst retrying.simps) auto
next
  case (Suc k)
  from body [of st] obtain st1 evs where
    b: "body st = (out (requests st), st1)" "requests st1 = Suc (requests st)"
       "trace st1 = trace st @ evs" "backoffs evs = []" "requested evs = [url]"
       "length (slept evs) = 1" by blast
  from Suc.prems(1) have "isl (out (requests st + 0))" by blast
  then obtain exn where exn: "out (requests st) = Inl exn" by (cases "out (requests st)") auto
  let ?st2 = "emit (Backoff (w a)) st1"
  have r2: "requests ?st2 = Suc (requests st)" using b(2) by (simp add: emit_def)
  have f: "\<forall>i<k. isl (out (requests ?st2 + i))"
  proof (intro allI impI)
    fix i assume "i < k"
    then have "isl (out (requests st + Suc i))" using Suc.prems(1) by (metis Suc_less_eq)
    then show "isl (out (requests ?st2 + i))" by (simp add: r2)
  qed
  have g: "out (requests ?st2 + k) = Inr r" using Suc.prems(2) by (simp add: r2)
  have h: "Suc a + k \<le> n" using Suc.prems(3) by simp
  from Suc.IH [OF f g h] obtain st' evs2 where
    ih: "retrying n w body (Suc a) ?st2 = (Inr r, st')"
        "requests st' = requests ?st2 + k + 1" "trace st' = trace ?st2 @ evs2"
        "backoffs evs2 = map w [Suc a..<Suc a + k]" "requested evs2 = replicate (Suc k) url"
        "length (slept evs2) = Suc k"
    by blast
  have na: "\<not> n \<le> a" using Suc.prems(3) by simp
  have 1: "retrying n w body a st = (Inr r, st')"
    using b(1) exn na ih(1) by (subst retrying.simps) simp
  have 2: "trace st' = trace st @ (evs @ [Backoff (w a)] @ evs2)"
    using ih(3) b(3) by (simp add: emit_def)
  have up: "[a..<a + Suc k] = a # [Suc a..<Suc a + k]"
    by (subst upt_conv_Cons) simp_all
  have 3: "backoffs (evs @ [Backoff (w a)] @ evs2) = map w [a..<a + Suc k]"
    unfolding up backoffs_append b(4) ih(4) by simp
  have 4: "requested (evs @ [Backoff (w a)] @ evs2) = replicate (Suc (Suc k)) url"
    using b(5) ih(5) by (simp add: requested_append)
  have 5: "length (slept (evs @ [Backoff (w a)] @ evs2)) = Suc (Suc k)"
    using b(6) ih(6) by (simp add: slept_append)
  from 1 2 3 4 5 ih(2) r2 show ?case by auto
qed

lemma retrying_exhausts:
  assumes body: "\<And>st. \<exists>st' evs. body st = (out (requests st), st')
           \<and> requests st' = Suc (requests st) \<and> trace st' = trace st @ evs
           \<and> backoffs evs = [] \<and> requested evs = [url] \<and> length (slept evs) = 1"
    and "\<forall>i<Suc k. isl (out (requests st + i))"
    and "a + k = n"
  shows "\<exists>st' evs. retrying n w body a st = (Inl RetryError, st')
           \<and> requests st' = requests st + Suc k \<and> trace st' = trace st @ evs
           \<and> backoffs evs = map w [a..<a + k] \<and> requested evs = replicate (Suc k) url
           \<and> length (slept evs) = Suc k"
  using assms(2-3)
proof (induction k arbitrary: a st)
  case 0
  from body [of st] obtain st' evs where
    b: "body st = (out (requests st), st')" "requests st' = Suc (requests st)"
       "trace st' = trace st @ evs" "backoffs evs = []" "requested evs = [url]"
       "length (slept evs) = 1" by blast
  from 0(1) have "isl (out (requests st + 0))" by blast
  then obtain exn where exn: "out (requests st) = Inl exn" by (cases "out (requests st)") auto
  with b 0 show ?case by (subst retrying.simps) auto
next
  case (Suc k)
  from body [of st] obtain st1 evs where
    b: "body st = (out (requests st), st1)" "requests st1 = Suc (requests st)"
       "trace st1 = trace st @ evs" "backoffs evs = []" "requested evs = [url]"
       "length (slept evs) = 1" by blast
  from Suc.prems(1) have "isl (out (requests st + 0))" by blast
  then obtain exn where exn: "out (requests st) = Inl exn" by (cases "out (requests st)") auto
  let ?st2 = "emit (Backoff (w a)) st1"
  have r2: "requests ?st2 = Suc (requests st)" using b(2) by (simp add: emit_def)
  have f: "\<forall>i<Suc k. isl (out (requests ?st2 + i))"
  proof (intro allI impI)
    fix i assume "i < Suc k"
    then have "isl (out (requests st + Suc i))" using Suc.prems(1) by (metis Suc_less_eq)
    then show "isl (out (requests ?st2 + i))" by (simp add: r2)
  qed
  have h: "Suc a + k = n" using Suc.prems(2) by simp
  from Suc.IH [OF f h] obtain st' evs2 where
    ih: "retrying n w body (Suc a) ?st2 = (Inl RetryError, st')"
        "requests st' = requests ?st2 + Suc k" "trace st' = trace ?st2 @ evs2"
        "backoffs evs2 = map w [Suc a..<Suc a + k]" "requested evs2 = replicate (Suc k) url"
        "length (slept evs2) = Suc k"
    by blast
  have na: "\<not> n \<le> a" using Suc.prems(2) by simp
  have 1: "retrying n w body a st = (Inl RetryError, st')"
    using b(1) exn na ih(1) by (subst retrying.simps) simp
  have 2: "trace st' = trace st @ (evs @ [Backoff (w a)] @ evs2)"
    using ih(3) b(3) by (simp add: emit_def)
  have up: "[a..<a + Suc k] = a # [Suc a..<Suc a + k]"
    by (subst upt_conv_Cons) simp_all
  have 3: "backoffs (evs @ [Backoff (w a)] @ evs2) = map w [a..<a + Suc k]"
    unfolding up backoffs_append b(4) ih(4) by simp
  have 4: "requested (evs @ [Backoff (w a)] @ evs2) = replicate (Suc (Suc k)) url"
    using b(5) ih(5) by (simp add: requested_append)
  have 5: "length (slept (evs @ [Backoff (w a)] @ evs2)) = Suc (Suc k)"
    using b(6) ih(6) by (simp add: slept_append)
  from 1 2 3 4 5 ih(2) r2 show ?case by auto
qed



lemma wait_is_four: "i < 3 \<Longrightarrow> wait_exponential 1 4 10 i = 4"
proof -
  assume "i < 3"
  then consider "i = 0" | "i = 1" | "i = 2" by linarith
  then show ?thesis by cases (simp_all add: wait_exponential_def)
qed

lemma attempt_numbers: "map (\<lambda>a. w (a - 1)) [1..<1 + k] = map w [0..<k]"
  by (induction k) simp_all

lemma three_attempts:
  fixes body :: "state \<Rightarrow> (py_exn + 'a) \<times> state"
  defines "page \<equiv> retrying 3 (\<lambda>attempt_number. wait_exponential 1 4 10 (attempt_number - 1)) body 1"
  assumes body: "\<And>st. \<exists>st' evs. body st = (out (requests st), st')
           \<and> requests st' = Suc (requests st) \<and> trace st' = trace st @ evs
           \<and> backoffs evs = [] \<and> requested evs = [url] \<and> length (slept evs) = 1"
  shows "k < 3 \<and> (\<forall>i<k. isl (out (requests st + i))) \<and> out (requests st + k) = Inr r \<longrightarrow>
         fst (page st) = Inr r
         \<and> requested (new_events st (snd (page st))) = replicate (Suc k) url
         \<and> length (slept (new_events st (snd (page st)))) = Suc k
         \<and> backoffs (new_events st (snd (page st))) = map (wait_exponential 1 4 10) [0..<k]
         \<and> backoffs (new_events st (snd (page st))) = replicate k 4"
    and "(\<forall>i<3. isl (out (requests st + i))) \<longrightarrow>
         fst (page st) = Inl RetryError
         \<and> requested (new_events st (snd (page st))) = replicate 3 url
         \<and> length (slept (new_events st (snd (page st)))) = 3
         \<and> backoffs (new_events st (snd (page st))) = [4, 4]"
proof -
  let ?w = "\<lambda>attempt_number. wait_exponential 1 4 10 (attempt_number - 1)"
  show "k < 3 \<and> (\<forall>i<k. isl (out (requests st + i))) \<and> out (requests st + k) = Inr r \<longrightarrow>
         fst (page st) = Inr r
         \<and> requested (new_events st (snd (page st))) = replicate (Suc k) url
         \<and> length (slept (new_events st (snd (page st)))) = Suc k
         \<and> backoffs (new_events st (snd (page st))) = map (wait_exponential 1 4 10) [0..<k]
         \<and> backoffs (new_events st (snd (page st))) = replicate k 4"
  proof (intro impI, elim conjE)
    assume k: "k < 3" and f: "\<forall>i<k. isl (out (requests st + i))"
      and ok: "out (requests st + k) = Inr r"
    from k have le: "1 + k \<le> 3" by simp
    from retrying_succeeds [of body out url k st r 1 3 ?w, OF body f ok le]
    obtain st' evs where r: "page st = (Inr r, st')"
      "trace st' = trace st @ evs" "backoffs evs = map ?w [1..<1 + k]"
      "requested evs = replicate (Suc k) url" "length (slept evs) = Suc k"
      unfolding page_def by blast
    have w4: "map (wait_exponential 1 4 10) [0..<k] = replicate k 4"
      using k by (intro nth_equalityI) (simp_all add: wait_is_four)
    have b: "backoffs evs = map (wait_exponential 1 4 10) [0..<k]"
      using r(3) by (simp only: attempt_numbers)
    from r(1,2,4,5) b w4 show "fst (page st) = Inr r
         \<and> requested (new_events st (snd (page st))) = replicate (Suc k) url
         \<and> length (slept (new_events st (snd (page st)))) = Suc k
         \<and> backoffs (new_events st (snd (page st))) = map (wait_exponential 1 4 10) [0..<k]
         \<and> backoffs (new_events st (snd (page st))) = replicate k 4"
      by (simp add: new_events_append)
  qed
  show "(\<forall>i<3. isl (out (requests st + i))) \<longrightarrow>
         fst (page st) = Inl RetryError
         \<and> requested (new_events st (snd (page st))) = replicate 3 url
         \<and> length (slept (new_events st (snd (page st)))) = 3
         \<and> backoffs (new_events st (snd (page st))) = [4, 4]"
  proof
    assume f: "\<forall>i<3. isl (out (requests st + i))"
    then have f': "\<forall>i<Suc 2. isl (out (requests st + i))"
      by (simp add: numeral_3_eq_3)
    have e: "1 + 2 = (3::nat)" by simp
    from retrying_exhausts [of body out url 2 st 1 3 ?w, OF body f' e]
    obtain st' evs where r: "page st = (Inl RetryError, st')"
      "trace st' = trace st @ evs" "backoffs evs = map ?w [1..<1 + 2]"
      "requested evs = replicate (Suc 2) url" "length (slept evs) = Suc 2"
      unfolding page_def by blast
    have "map ?w [1..<1 + 2] = map (wait_exponential 1 4 10) [0..<2]"
      by (rule attempt_numbers)
    also have "\<dots> = [4, 4]"
      by (simp add: wait_is_four upt_rec)
    finally have "backoffs evs = [4, 4]" using r(3) by simp
    with r show "fst (page st) = Inl RetryError
         \<and> requested (new_events st (snd (page st))) = replicate 3 url
         \<and> length (slept (new_events st (snd (page st)))) = 3
         \<and> backoffs (new_events st (snd (page st))) = [4, 4]"
      by (simp add: new_events_append numeral_3_eq_3)
  qed
qed

lemma fetch_page_attempts:
  assumes "sleepable L s"
  shows "k < 3 \<and> (\<forall>i<k. isl (http_get L (requests st + i) url))
           \<and> http_get L (requests st + k) url = Inr soup \<longrightarrow>
         fst (static_fetch_page L s url st) = Inr soup
         \<and> requested (new_events st (snd (static_fetch_page L s url st))) = replicate (Suc k) url
         \<and> length (slept (new_events st (snd (static_fetch_page L s url st)))) = Suc k
         \<and> backoffs (new_events st (snd (static_fetch_page L s url st)))
             = map (wait_exponential 1 4 10) [0..<k]
         \<and> backoffs (new_events st (snd (static_fetch_page L s url st))) = replicate k 4"
    and "(\<forall>i<3. isl (http_get L (requests st + i) url)) \<longrightarrow>
         fst (static_fetch_page L s url st) = Inl RetryError
         \<and> requested (new_events st (snd (static_fetch_page L s url st))) = replicate 3 url
         \<and> length (slept (new_events st (snd (static_fetch_page L s url st)))) = 3
         \<and> backoffs (new_events st (snd (static_fetch_page L s url st))) = [4, 4]"
  using three_attempts [of "static_fetch_attempt L s url" "\<lambda>n. http_get L n url" url,
      OF static_attempt_outcome [OF assms]]
  unfolding static_fetch_page_def by blast+












text \<open>
  C3, as amended. \<open>fetch_page\<close> makes up to three attempts, whatever the configuration
  of the scraper \<open>s\<close> is: three is a constant of the decorator. With a delay that can be
  slept, when the first \<open>k < 3\<close> requests fail and the next one succeeds, the parsed page
  is returned (the result is \<open>Inr\<close>: no exception reaches the caller) after \<open>k + 1\<close>
  requests, with a wait of \<open>1 * 2 ^ i\<close> kept in [4, 10], which is 4 seconds, after the
  failed attempt \<open>i\<close> (from 0); when three requests fail, \<open>RetryError\<close> is raised to the
  caller after the third.
\<close>

theorem fetch_page_three_attempts:
  assumes "sleepable L s"
  shows "(k < 3 \<and> (\<forall>i<k. isl (http_get L (requests st + i) url))
            \<and> http_get L (requests st + k) url = Inr soup \<longrightarrow>
          fst (static_fetch_page L s url st) = Inr soup
          \<and> requested (new_events st (snd (static_fetch_page L s url st))) = replicate (Suc k) url
          \<and> backoffs (new_events st (snd (static_fetch_page L s url st)))
              = map (wait_exponential 1 4 10) [0..<k]
          \<and> backoffs (new_events st (snd (static_fetch_page L s url st))) = replicate k 4)
       \<and> ((\<forall>i<3. isl (http_get L (requests st + i) url)) \<longrightarrow>
          fst (static_fetch_page L s url st) = Inl RetryError
          \<and> requested (new_events st (snd (static_fetch_page L s url st))) = replicate 3 url
          \<and> backoffs (new_events st (snd (static_fetch_page L s url st))) = [4, 4])"
  using fetch_page_attempts [OF assms] by blast

theorem fetch_page_three_attempts_witness:
  "sleepable (test_lib (failing_first 2 items_page)) plain_scraper
   \<and> sleepable (test_lib (failing_first 3 items_page)) plain_scraper
   \<and> isl (http_get (test_lib (failing_first 2 items_page)) 0 test_url)
   \<and> isl (http_get (test_lib (failing_first 2 items_page)) 1 test_url)
   \<and> http_get (test_lib (failing_first 2 items_page)) (requests start_state + 2) test_url
       = Inr items_page
   \<and> fst (static_fetch_page (test_lib (failing_first 2 items_page)) plain_scraper test_url
            start_state) = Inr items_page
   \<and> backoffs (new_events start_state
        (snd (static_fetch_page (test_lib (failing_first 2 items_page)) plain_scraper test_url
               start_state))) = [4, 4]
   \<and> isl (http_get (test_lib (failing_first 3 items_page)) 0 test_url)
   \<and> isl (http_get (test_lib (failing_first 3 items_page)) 1 test_url)
   \<and> isl (http_get (test_lib (failing_first 3 items_page)) 2 test_url)
   \<and> fst (static_fetch_page (test_lib (failing_first 3 items_page)) plain_scraper test_url
            start_state) = Inl RetryError
   \<and> requested (new_events start_state
        (snd (static_fetch_page (test_lib (failing_first 3 items_page)) plain_scraper test_url
               start_state))) = [test_url, test_url, test_url]"
proof -
  have d: "delay_seconds plain_scraper = JFloat 2" and j: "\<not> truthy (jitter plain_scraper)"
    by (simp_all add: plain_scraper_def StaticScraper_init_def five_attempts_config_def
          get_nested_def py_or_def)
  have s2: "sleepable (test_lib (failing_first 2 items_page)) plain_scraper"
    and s3: "sleepable (test_lib (failing_first 3 items_page)) plain_scraper"
    using d j by (simp_all add: sleepable_def test_lib_def stub_time_sleep_def)
  have f2: "\<forall>i<2. isl (http_get (test_lib (failing_first 2 items_page))
                         (requests start_state + i) test_url)"
    by (simp add: test_lib_def failing_first_def start_state_def)
  have ok: "http_get (test_lib (failing_first 2 items_page)) (requests start_state + 2) test_url
       = Inr items_page"
    by (simp add: test_lib_def failing_first_def start_state_def)
  have f3: "\<forall>i<3. isl (http_get (test_lib (failing_first 3 items_page))
                         (requests start_state + i) test_url)"
    by (simp add: test_lib_def failing_first_def start_state_def)
  have two: "(2::nat) < 3" by simp
  have rep2: "replicate 2 (4::real) = [4, 4]"
    and rep3: "replicate 3 test_url = [test_url, test_url, test_url]"
    by (simp_all add: numeral_2_eq_2 numeral_3_eq_3)
  from fetch_page_three_attempts [OF s2, of 2 start_state test_url items_page]
    two f2 ok
  have "fst (static_fetch_page (test_lib (failing_first 2 items_page)) plain_scraper test_url
            start_state) = Inr items_page
   \<and> backoffs (new_events start_state
        (snd (static_fetch_page (test_lib (failing_first 2 items_page)) plain_scraper test_url
               start_state))) = replicate 2 4"
    by blast
  then have a: "fst (static_fetch_page (test_lib (failing_first 2 items_page)) plain_scraper test_url
            start_state) = Inr items_page
   \<and> backoffs (new_events start_state
        (snd (static_fetch_page (test_lib (failing_first 2 items_page)) plain_scraper test_url
               start_state))) = [4, 4]"
    by (simp only: rep2)
  from fetch_page_three_attempts [OF s3, of _ start_state test_url] f3
  have "fst (static_fetch_page (test_lib (failing_first 3 items_page)) plain_scraper test_url
            start_state) = Inl RetryError
   \<and> requested (new_events start_state
        (snd (static_fetch_page (test_lib (failing_first 3 items_page)) plain_scraper test_url
               start_state))) = replicate 3 test_url"
    by blast
  then have b: "fst (static_fetch_page (test_lib (failing_first 3 items_page)) plain_scraper test_url
            start_state) = Inl RetryError
   \<and> requested (new_events start_state
        (snd (static_fetch_page (test_lib (failing_first 3 items_page)) plain_scraper test_url
               start_state))) = [test_url, test_url, test_url]"
    by (simp only: rep3)
  have g2: "isl (http_get (test_lib (failing_first 2 items_page)) 0 test_url)"
    "isl (http_get (test_lib (failing_first 2 items_page)) 1 test_url)"
    and g3: "isl (http_get (test_lib (failing_first 3 items_page)) 0 test_url)"
    "isl (http_get (test_lib (failing_first 3 items_page)) 1 test_url)"
    "isl (http_get (test_lib (failing_first 3 items_page)) 2 test_url)"
    by (simp_all add: test_lib_def failing_first_def)
  from s2 s3 g2 ok a g3 b show ?thesis by blast
qed

text \<open>
  C3 as stated fails: a configuration that asks for five attempts, a network whose first
  three requests fail and whose fourth would succeed, and yet the fetch fails. And a delay
  that \<open>time.sleep\<close> refuses: every attempt raises before its request, and the fetch
  fails though the network would have served the page at once.
\<close>

theorem retry_attempts_ignored:
  "get five_attempts_config ''retry_attempts'' JNull = JInt 5
   \<and> get_nested five_attempts_config [''rate_limit'', ''retry_attempts''] = JInt 5
   \<and> http_get (test_lib (failing_first 3 items_page)) 3 test_url = Inr items_page
   \<and> fst (static_fetch_page (test_lib (failing_first 3 items_page))
             (StaticScraper_init five_attempts_config) test_url start_state) = Inl RetryError
   \<and> http_get (test_lib (failing_first 0 items_page)) 0 test_url = Inr items_page
   \<and> static_fetch_page (test_lib (failing_first 0 items_page)) long_delay_scraper test_url
       start_state
     = (Inl RetryError, \<lparr> trace = [Backoff 4, Backoff 4], requests = 0, draws = 0 \<rparr>)"
  by code_simp

section \<open>Properties of the pagination and of scrape\<close>





lemma walk_none [simp]: "walk L s cfg fuel None x = (Done, None, x)"
  by (cases x) simp



lemma try_page_extends:
  "try_page L s cfg u (d, st) = (r, d', st') \<Longrightarrow> \<exists>new. d' = d @ new"
  by (auto simp: try_page_def split: prod.splits sum.splits)

lemma walk_extends:
  "walk L s cfg fuel cur (all_data, st) = (status, cur', all_data', st')
     \<Longrightarrow> \<exists>new. all_data' = all_data @ new"
proof (induction fuel arbitrary: cur all_data st)
  case 0
  then show ?case by (cases cur) (auto split: if_splits)
next
  case (Suc fuel)
  show ?case
  proof (cases cur)
    case None
    with Suc.prems show ?thesis by simp
  next
    case (Some u)
    show ?thesis
    proof (cases "u = []")
      case True
      with Suc.prems Some show ?thesis by simp
    next
      case False
      obtain r d1 st1 where t: "try_page L s cfg u (all_data, emit (Log INFO u) st) = (r, d1, st1)"
        by (cases "try_page L s cfg u (all_data, emit (Log INFO u) st)")
      from try_page_extends [OF t] obtain n1 where n1: "d1 = all_data @ n1" by blast
      show ?thesis
      proof (cases r)
        case (Inl exn)
        with Suc.prems Some False t n1 show ?thesis by auto
      next
        case (Inr nx)
        with Suc.prems Some False t
        have "walk L s cfg fuel nx (d1, st1) = (status, cur', all_data', st')" by simp
        from Suc.IH [OF this] n1 show ?thesis by auto
      qed
    qed
  qed
qed















end
